theory Spec2Isabelle
  imports Complex_Main "HOL-Library.Word"
begin

section \<open>Numbers and arrays of the source\<close>

text \<open>
  The program is TypeScript. Its \<^verbatim>\<open>number\<close> values are modelled as real numbers: the
  arithmetic is exact and every value is finite. A \<^verbatim>\<open>Uint8Array\<close> is a list of 8-bit
  words, a \<^verbatim>\<open>number[]\<close> a list of reals, \<^verbatim>\<open>Date.now()\<close> an argument of the call.
  Where the source could divide by zero (an empty frame) the theorems below either do
  not depend on the quotient or assume the frame non-empty.
\<close>

type_synonym uint8 = "8 word"

definition byte :: "uint8 \<Rightarrow> real" where
  "byte v = real (unat v)"

text \<open>\<^verbatim>\<open>Math.round\<close>: the nearest integer, a half rounds up.\<close>

definition Math_round :: "real \<Rightarrow> real" where
  "Math_round x = of_int \<lfloor>x + 1 / 2\<rfloor>"

text \<open>The remainder operator \<^verbatim>\<open>%\<close> on numbers: the quotient is truncated toward zero.\<close>

definition trunc :: "real \<Rightarrow> int" where
  "trunc q = (if 0 \<le> q then \<lfloor>q\<rfloor> else \<lceil>q\<rceil>)"

definition js_rem :: "real \<Rightarrow> real \<Rightarrow> real" where
  "js_rem a b = a - b * of_int (trunc (a / b))"

text \<open>\<^verbatim>\<open>x || d\<close> on numbers: \<^verbatim>\<open>d\<close> when \<^verbatim>\<open>x\<close> is zero.\<close>

definition js_or :: "'a::zero \<Rightarrow> 'a \<Rightarrow> 'a" where
  "js_or x d = (if x = 0 then d else x)"

text \<open>\<^verbatim>\<open>xs.push(x)\<close>, \<^verbatim>\<open>xs.shift()\<close>, \<^verbatim>\<open>xs.slice(-n)\<close> and
  \<^verbatim>\<open>xs.reduce((sum, val) => sum + val, 0)\<close>.\<close>

definition push :: "'a list \<Rightarrow> 'a \<Rightarrow> 'a list" where
  "push xs x = xs @ [x]"

definition shift :: "'a list \<Rightarrow> 'a list" where
  "shift xs = tl xs"

definition slice_last :: "nat \<Rightarrow> 'a list \<Rightarrow> 'a list" where
  "slice_last n xs = drop (length xs - n) xs"

definition reduce_sum :: "real list \<Rightarrow> real" where
  "reduce_sum xs = foldl (\<lambda>sum val. sum + val) 0 xs"

section \<open>The beat detector (\<^verbatim>\<open>AdvancedBeatDetector\<close>)\<close>

record RhythmPattern =
  pattern :: "bool list"
  confidence :: real
  period :: nat

record BeatData =
  isBeat :: bool
  confidence :: real
  tempo :: real
  timeSignature :: nat
  beatPhase :: real
  intensity :: real

record AdvancedBeatDetector =
  sampleRate :: real
  bufferSize :: real
  energyHistory :: "real list"
  beatHistory :: "real list"
  tempoHistory :: "real list"
  lastBeatTime :: real
  beatInterval :: real
  beatPhase :: real
  bassHistory :: "real list"
  midHistory :: "real list"
  trebleHistory :: "real list"
  rhythmPatterns :: "RhythmPattern list"
  patternBuffer :: "bool list"

text \<open>The detection parameters are private fields that are initialised once and never
  assigned again.\<close>

definition energyThreshold :: real where "energyThreshold = 13 / 10"
definition minBeatInterval :: real where "minBeatInterval = 300"
definition maxBeatInterval :: real where "maxBeatInterval = 2000"
definition historySize :: nat where "historySize = 43"
definition tempoSmoothingFactor :: real where "tempoSmoothingFactor = 9 / 10"

text \<open>The constructor; its default arguments are 44100 and 1024.\<close>

definition new_detector :: "real \<Rightarrow> real \<Rightarrow> AdvancedBeatDetector" where
  "new_detector sr bs =
     \<lparr> AdvancedBeatDetector.sampleRate = sr, bufferSize = bs, energyHistory = [],
       beatHistory = [], tempoHistory = [], lastBeatTime = 0, beatInterval = 0,
       AdvancedBeatDetector.beatPhase = 0, bassHistory = [], midHistory = [],
       trebleHistory = [], rhythmPatterns = [], patternBuffer = [] \<rparr>"

definition calculateEnergy :: "uint8 list \<Rightarrow> real" where
  "calculateEnergy frequencyData =
     sqrt (foldl (\<lambda>sum v. sum + byte v * byte v) 0 frequencyData
           / real (length frequencyData)) / 255"

definition updateFrequencyHistories ::
  "AdvancedBeatDetector \<Rightarrow> real \<Rightarrow> real \<Rightarrow> real \<Rightarrow> AdvancedBeatDetector" where
  "updateFrequencyHistories s bass mid treble =
     (let maxHistory = 20;
          b = push (bassHistory s) bass;
          m = push (midHistory s) mid;
          t = push (trebleHistory s) treble
      in s\<lparr> bassHistory := (if length b > maxHistory then shift b else b),
            midHistory := (if length m > maxHistory then shift m else m),
            trebleHistory := (if length t > maxHistory then shift t else t) \<rparr>)"

text \<open>\<^verbatim>\<open>detectBeat\<close> returns the pair \<^verbatim>\<open>{isBeat, confidence}\<close> and the updated detector.
  The read \<^verbatim>\<open>bassHistory[length - 1]\<close> of an empty history is \<^verbatim>\<open>undefined\<close>, which
  compares false.\<close>

definition detectBeat ::
  "AdvancedBeatDetector \<Rightarrow> real \<Rightarrow> real \<Rightarrow> (bool \<times> real) \<times> AdvancedBeatDetector" where
  "detectBeat s energy currentTime =
     (if length (energyHistory s) < 10 then ((False, 0), s)
      else
        let recentEnergy = slice_last 10 (energyHistory s);
            localAverage = reduce_sum recentEnergy / real (length recentEnergy);
            variance = foldl (\<lambda>sum val. sum + (val - localAverage) ^ 2) 0 recentEnergy
                         / real (length recentEnergy);
            adaptiveThreshold = energyThreshold + sqrt variance;
            energyRatio = energy / (localAverage + 1 / 1000);
            isEnergyBeat = (energyRatio > adaptiveThreshold);
            timeSinceLastBeat = currentTime - lastBeatTime s;
            isTimingValid = (timeSinceLastBeat \<ge> minBeatInterval);
            bassAvg = reduce_sum (bassHistory s) / real (length (bassHistory s));
            isBassHit = (bassHistory s \<noteq> [] \<and> last (bassHistory s) > bassAvg * (12 / 10));
            isBeat' = (isEnergyBeat \<and> isTimingValid \<and> isBassHit)
        in if isBeat' then
             let bh = push (beatHistory s) currentTime
             in ((True, min 1 ((energyRatio - 1) * (1 / 2))),
                 s\<lparr> lastBeatTime := currentTime,
                    beatHistory := (if length bh > 8 then shift bh else bh) \<rparr>)
           else ((False, 0), s))"

text \<open>\<^verbatim>\<open>median\<close> of an empty array reads \<^verbatim>\<open>undefined\<close> and yields \<^verbatim>\<open>NaN\<close>: the value
  \<open>None\<close>.\<close>

definition median :: "real list \<Rightarrow> real option" where
  "median arr =
     (let sorted = sort arr; mid = length sorted div 2
      in if sorted = [] then None
         else if length sorted mod 2 = 0
           then Some ((sorted ! (mid - 1) + sorted ! mid) / 2)
           else Some (sorted ! mid))"

text \<open>The two local arrays of \<^verbatim>\<open>calculateTempo\<close>: the intervals between recent beats,
  and those within 30 per cent of their median. A comparison with \<^verbatim>\<open>NaN\<close> is false,
  so no interval passes the filter then.\<close>

definition intervals :: "real list \<Rightarrow> real list" where
  "intervals bh = map (\<lambda>i. bh ! i - bh ! (i - 1)) [1 ..< length bh]"

definition validIntervals :: "real list \<Rightarrow> real list" where
  "validIntervals ivs =
     (case median ivs of
        None \<Rightarrow> []
      | Some medianInterval \<Rightarrow>
          filter (\<lambda>interval. \<bar>interval - medianInterval\<bar> < medianInterval * (3 / 10)) ivs)"

definition calculateTempo ::
  "AdvancedBeatDetector \<Rightarrow> real \<Rightarrow> bool \<Rightarrow> real \<times> AdvancedBeatDetector" where
  "calculateTempo s currentTime isBeat' =
     (if \<not> isBeat' \<or> length (beatHistory s) < 2 then
        (if length (tempoHistory s) > 0 then last (tempoHistory s) else 120, s)
      else
        let valid = validIntervals (intervals (beatHistory s))
        in if length valid = 0 then (120, s)
           else
             let avgInterval = reduce_sum valid / real (length valid);
                 newTempo = Math_round (60000 / avgInterval);
                 lastTempo = (if length (tempoHistory s) > 0 then last (tempoHistory s)
                              else newTempo);
                 smoothedTempo = Math_round (lastTempo * tempoSmoothingFactor
                                   + newTempo * (1 - tempoSmoothingFactor));
                 finalTempo = max 60 (min 200 smoothedTempo);
                 th = push (tempoHistory s) finalTempo
             in (finalTempo,
                 s\<lparr> tempoHistory := (if length th > 10 then shift th else th) \<rparr>))"

definition updateBeatPhase ::
  "AdvancedBeatDetector \<Rightarrow> real \<Rightarrow> real \<Rightarrow> AdvancedBeatDetector" where
  "updateBeatPhase s currentTime tempo' =
     (if lastBeatTime s = 0 then s\<lparr> AdvancedBeatDetector.beatPhase := 0 \<rparr>
      else
        let beatDuration = 60000 / tempo';
            timeSinceLastBeat = currentTime - lastBeatTime s
        in s\<lparr> AdvancedBeatDetector.beatPhase :=
                js_rem timeSinceLastBeat beatDuration / beatDuration \<rparr>)"

text \<open>The two nested loops of \<^verbatim>\<open>calculatePatternConfidence\<close>. The outer loop steps by
  \<open>len\<close>, which its only caller takes from 4, 8 and 16.\<close>

definition compareBlock :: "bool list \<Rightarrow> bool list \<Rightarrow> nat \<Rightarrow> nat \<Rightarrow> nat \<times> nat \<Rightarrow> nat \<times> nat" where
  "compareBlock buf pat len i acc =
     foldl (\<lambda>(matches, total) j.
              ((if buf ! (i + j) = pat ! j then matches + 1 else matches), total + 1))
       acc [0 ..< len]"

function repeatLoop :: "bool list \<Rightarrow> bool list \<Rightarrow> nat \<Rightarrow> nat \<Rightarrow> nat \<times> nat \<Rightarrow> nat \<times> nat" where
  "repeatLoop buf pat len i acc =
     (if 0 < len \<and> i < length buf - len
      then repeatLoop buf pat len (i + len) (compareBlock buf pat len i acc)
      else acc)"
  by pat_completeness auto
termination
  by (relation "measure (\<lambda>(buf, pat, len, i, acc). length buf - i)") auto

declare repeatLoop.simps [simp del]

definition calculatePatternConfidence :: "bool list \<Rightarrow> bool list \<Rightarrow> nat \<Rightarrow> real" where
  "calculatePatternConfidence buf pat len =
     (if length buf < len * 3 then 0
      else
        let (matches, total) = repeatLoop buf pat len len (0, 0)
        in if total > 0 then real matches / real total else 0)"

definition patternsMatch :: "bool list \<Rightarrow> bool list \<Rightarrow> bool" where
  "patternsMatch pattern1 pattern2 =
     (if length pattern1 \<noteq> length pattern2 then False
      else
        let matches = foldl (\<lambda>m i. if pattern1 ! i = pattern2 ! i then m + 1 else m)
                        (0::nat) [0 ..< length pattern1]
        in real matches / real (length pattern1) > 8 / 10)"

text \<open>\<^verbatim>\<open>find\<close> returns the first stored pattern that matches, and the assignment to its
  \<^verbatim>\<open>confidence\<close> changes that element of the array.\<close>

fun update_first :: "('a \<Rightarrow> bool) \<Rightarrow> ('a \<Rightarrow> 'a) \<Rightarrow> 'a list \<Rightarrow> 'a list" where
  "update_first P f [] = []"
| "update_first P f (x # xs) = (if P x then f x # xs else x # update_first P f xs)"

definition minePattern :: "bool list \<Rightarrow> nat \<Rightarrow> RhythmPattern list \<Rightarrow> RhythmPattern list" where
  "minePattern buf len pats =
     (if length buf < len * 2 then pats
      else
        let pat = slice_last len buf;
            c = calculatePatternConfidence buf pat len
        in if c > 6 / 10 then
             let same = (\<lambda>p. period p = len \<and> patternsMatch (pattern p) pat)
             in (case List.find same pats of
                   Some existingPattern \<Rightarrow>
                     update_first same
                       (\<lambda>p. p\<lparr> RhythmPattern.confidence :=
                                  min 1 (RhythmPattern.confidence p + 1 / 10) \<rparr>) pats
                 | None \<Rightarrow>
                     push pats \<lparr> pattern = pat, RhythmPattern.confidence = c, period = len \<rparr>)
           else pats)"

text \<open>The sort by descending confidence is stable, as \<^verbatim>\<open>Array.prototype.sort\<close> is.\<close>

definition analyzeRhythmPatterns :: "AdvancedBeatDetector \<Rightarrow> AdvancedBeatDetector" where
  "analyzeRhythmPatterns s =
     (let patternLengths = [4, 8, 16];
          mined = foldl (\<lambda>pats len. minePattern (patternBuffer s) len pats)
                    (rhythmPatterns s) patternLengths;
          kept = filter (\<lambda>p. RhythmPattern.confidence p > 3 / 10) mined
      in s\<lparr> rhythmPatterns :=
              (if length kept > 5
               then take 5 (sort_key (\<lambda>p. - RhythmPattern.confidence p) kept)
               else kept) \<rparr>)"

definition updateRhythmPatterns :: "AdvancedBeatDetector \<Rightarrow> bool \<Rightarrow> AdvancedBeatDetector" where
  "updateRhythmPatterns s isBeat' =
     (let pb = push (patternBuffer s) isBeat';
          s1 = s\<lparr> patternBuffer := (if length pb > 32 then shift pb else pb) \<rparr>
      in if length (patternBuffer s1) \<ge> 16 \<and> length (patternBuffer s1) mod 16 = 0
         then analyzeRhythmPatterns s1 else s1)"

definition estimateTimeSignature :: "AdvancedBeatDetector \<Rightarrow> nat" where
  "estimateTimeSignature s =
     (let strongPatterns = filter (\<lambda>p. RhythmPattern.confidence p > 7 / 10) (rhythmPatterns s)
      in if length strongPatterns = 0 then 4
         else
           let periods = map period strongPatterns
           in if 4 \<in> set periods \<or> 8 \<in> set periods then 4
              else if 3 \<in> set periods \<or> 6 \<in> set periods then 3
              else if 2 \<in> set periods then 2
              else 4)"

definition calculateIntensity :: "real \<Rightarrow> real \<Rightarrow> real \<Rightarrow> real \<Rightarrow> real" where
  "calculateIntensity bass mid treble energy =
     min 1 ((bass * (4 / 10) + mid * (3 / 10) + treble * (2 / 10) + energy * (1 / 10)) * 2)"

text \<open>\<^verbatim>\<open>analyze\<close>; the clock reading \<^verbatim>\<open>Date.now()\<close> is its last argument.\<close>

definition analyze ::
  "AdvancedBeatDetector \<Rightarrow> uint8 list \<Rightarrow> uint8 list \<Rightarrow> real \<Rightarrow> real \<Rightarrow> real \<Rightarrow> real
     \<Rightarrow> BeatData \<times> AdvancedBeatDetector" where
  "analyze s frequencyData timeData bass mid treble currentTime =
     (let energy = calculateEnergy frequencyData;
          s1 = updateFrequencyHistories s bass mid treble;
          eh = push (energyHistory s1) energy;
          s2 = s1\<lparr> energyHistory := (if length eh > historySize then shift eh else eh) \<rparr>;
          (beatResult, s3) = detectBeat s2 energy currentTime;
          (tempo', s4) = calculateTempo s3 currentTime (fst beatResult);
          s5 = updateBeatPhase s4 currentTime tempo';
          s6 = updateRhythmPatterns s5 (fst beatResult);
          timeSignature' = estimateTimeSignature s6
      in (\<lparr> isBeat = fst beatResult, BeatData.confidence = snd beatResult, tempo = tempo',
            timeSignature = timeSignature', BeatData.beatPhase = AdvancedBeatDetector.beatPhase s6,
            intensity = calculateIntensity bass mid treble energy \<rparr>, s6))"

text \<open>\<^verbatim>\<open>reset\<close> clears the eight arrays and the two scalars.\<close>

definition reset :: "AdvancedBeatDetector \<Rightarrow> AdvancedBeatDetector" where
  "reset s =
     s\<lparr> energyHistory := [], beatHistory := [], tempoHistory := [], bassHistory := [],
        midHistory := [], trebleHistory := [], rhythmPatterns := [], patternBuffer := [],
        lastBeatTime := 0, AdvancedBeatDetector.beatPhase := 0 \<rparr>"

section \<open>The frame source (\<^verbatim>\<open>AudioAnalyzer.getAnalysisData\<close>)\<close>

record AudioAnalysisData =
  frequencyData :: "uint8 list"
  timeData :: "uint8 list"
  volume :: real
  bass :: real
  mid :: real
  treble :: real
  beat :: bool
  tempo :: real

text \<open>\<^verbatim>\<open>getFrequencyBandAverage\<close> reads the sample rate of the audio context and the
  frequency array of the analyzer; both are arguments here. Its three callers pass the
  ranges 0 to 60, 60 to 250 and 250 to 500, so the first bin is never negative.\<close>

definition getFrequencyBandAverage :: "real \<Rightarrow> uint8 list \<Rightarrow> real \<Rightarrow> real \<Rightarrow> real" where
  "getFrequencyBandAverage contextRate fd startFreq endFreq =
     (let nyquist = contextRate / 2;
          startBin = \<lfloor>(startFreq / nyquist) * real (length fd)\<rfloor>;
          endBin = \<lfloor>(endFreq / nyquist) * real (length fd)\<rfloor>;
          (sum, count) = foldl (\<lambda>(sum, count) i. (sum + byte (fd ! i), count + (1::nat)))
                           (0, 0) [nat startBin ..< nat (min endBin (int (length fd)))]
      in if count > 0 then sum / real count / 255 else 0)"

text \<open>The analysis loop of the visualizer hands the fields of one frame to the detector,
  with the clock reading of that tick.\<close>

definition analyzeFrame ::
  "AdvancedBeatDetector \<Rightarrow> AudioAnalysisData \<Rightarrow> real \<Rightarrow> BeatData \<times> AdvancedBeatDetector" where
  "analyzeFrame s a now =
     analyze s (frequencyData a) (timeData a) (bass a) (mid a) (treble a) now"

fun feed ::
  "AdvancedBeatDetector \<Rightarrow> (AudioAnalysisData \<times> real) list
     \<Rightarrow> BeatData list \<times> AdvancedBeatDetector" where
  "feed s [] = ([], s)"
| "feed s (tick # ticks) =
     (let (out, s1) = analyzeFrame s (fst tick) (snd tick);
          (outs, s2) = feed s1 ticks
      in (out # outs, s2))"

section \<open>The feature extractor (\<^verbatim>\<open>AdvancedAudioAnalyzer\<close>)\<close>

record AdvancedAudioFeatures =
  spectralCentroid :: real
  spectralRolloff :: real
  spectralFlux :: real
  zeroCrossingRate :: real
  mfcc :: "real list"
  chroma :: "real list"
  tonnetz :: "real list"
  harmonicRatio :: real
  percussiveRatio :: real

datatype Mood = Energetic | Calm | Dark | Uplifting | Mysterious | Romantic | Aggressive

record MusicCharacteristics =
  tempo :: real
  energy :: real
  valence :: real
  danceability :: real
  acousticness :: real
  instrumentalness :: real
  genre :: string
  mood :: Mood
  timeSignature :: nat
  key :: string

record GenreScores =
  electronic :: real
  acoustic :: real
  vocal :: real
  instrumental :: real
  rhythmic :: real
  melodic :: real

record GenreClassification =
  primary :: string
  confidence :: real
  secondary :: "string list"
  characteristics :: GenreScores

text \<open>The analyzer keeps its sample rate, two sizes it never reads, and the history of
  the features it returned. The structure record and the classifier object hold no
  state that any function below reads.\<close>

record AdvancedAudioAnalyzer =
  sampleRate :: real
  frameSize :: real
  hopSize :: real
  analysisHistory :: "AdvancedAudioFeatures list"

definition new_analyzer :: AdvancedAudioAnalyzer where
  "new_analyzer =
     \<lparr> AdvancedAudioAnalyzer.sampleRate = 44100, frameSize = 2048, hopSize = 512,
       analysisHistory = [] \<rparr>"

definition magnitudeAt :: "uint8 list \<Rightarrow> nat \<Rightarrow> real" where
  "magnitudeAt fd i = byte (fd ! i) / 255"

definition binFrequency :: "AdvancedAudioAnalyzer \<Rightarrow> uint8 list \<Rightarrow> nat \<Rightarrow> real" where
  "binFrequency a fd i = (real i * AdvancedAudioAnalyzer.sampleRate a) / (2 * real (length fd))"

definition calculateSpectralCentroid :: "AdvancedAudioAnalyzer \<Rightarrow> uint8 list \<Rightarrow> real" where
  "calculateSpectralCentroid a fd =
     (let (weightedSum, magnitudeSum) =
            foldl (\<lambda>(weightedSum, magnitudeSum) i.
                     (weightedSum + binFrequency a fd i * magnitudeAt fd i,
                      magnitudeSum + magnitudeAt fd i))
              (0, 0) [0 ..< length fd]
      in if magnitudeSum > 0 then weightedSum / magnitudeSum else 0)"

fun rolloffLoop :: "AdvancedAudioAnalyzer \<Rightarrow> uint8 list \<Rightarrow> real \<Rightarrow> real \<Rightarrow> nat list \<Rightarrow> real" where
  "rolloffLoop a fd targetEnergy cumulativeEnergy [] = AdvancedAudioAnalyzer.sampleRate a / 2"
| "rolloffLoop a fd targetEnergy cumulativeEnergy (i # rest) =
     (let c = cumulativeEnergy + (magnitudeAt fd i) ^ 2
      in if c \<ge> targetEnergy then binFrequency a fd i
         else rolloffLoop a fd targetEnergy c rest)"

definition calculateSpectralRolloff :: "AdvancedAudioAnalyzer \<Rightarrow> uint8 list \<Rightarrow> real \<Rightarrow> real" where
  "calculateSpectralRolloff a fd threshold =
     (let totalEnergy = foldl (\<lambda>sum val. sum + (byte val / 255) ^ 2) 0 fd;
          targetEnergy = totalEnergy * threshold
      in rolloffLoop a fd targetEnergy 0 [0 ..< length fd])"

text \<open>The baseline of the flux is the \<^verbatim>\<open>mfcc\<close> vector of the last stored features.\<close>

definition calculateSpectralFlux :: "AdvancedAudioAnalyzer \<Rightarrow> uint8 list \<Rightarrow> real" where
  "calculateSpectralFlux a fd =
     (if length (analysisHistory a) = 0 then 0
      else
        let previousSpectrum = last (analysisHistory a);
            minLength = min (length fd) 128;
            flux = foldl (\<lambda>flux i.
                      let current = magnitudeAt fd i;
                          previous = (if i < length (mfcc previousSpectrum)
                                      then mfcc previousSpectrum ! i else 0)
                      in flux + max 0 (current - previous))
                     0 [0 ..< minLength]
        in flux / real minLength)"

text \<open>On an empty \<^verbatim>\<open>timeData\<close> the source divides 0 by 0 and the rate is \<^verbatim>\<open>NaN\<close>; the
  quotient below is 0 there. Statements that depend on the rate assume the array
  non-empty.\<close>

definition calculateZeroCrossingRate :: "uint8 list \<Rightarrow> real" where
  "calculateZeroCrossingRate td =
     (let centerValue = 128;
          crossings = foldl (\<lambda>crossings i.
                         let prev = int (unat (td ! (i - 1))) - centerValue;
                             curr = int (unat (td ! i)) - centerValue
                         in if (prev \<ge> 0 \<and> curr < 0) \<or> (prev < 0 \<and> curr \<ge> 0)
                            then crossings + 1 else crossings)
                      (0::nat) [1 ..< length td]
      in real crossings / real (length td))"

definition hzToMel :: "real \<Rightarrow> real" where
  "hzToMel hz = 2595 * log 10 (1 + hz / 700)"

definition melToHz :: "real \<Rightarrow> real" where
  "melToHz mel = 700 * (10 powr (mel / 2595) - 1)"

definition melFilter :: "AdvancedAudioAnalyzer \<Rightarrow> nat \<Rightarrow> nat \<Rightarrow> nat \<Rightarrow> real list" where
  "melFilter a spectrumLength numFilters i =
     (let melMax = hzToMel (AdvancedAudioAnalyzer.sampleRate a / 2);
          melMin = hzToMel 0;
          centerMel = melMin + (real i + 1) * (melMax - melMin) / (real numFilters + 1);
          centerHz = melToHz centerMel;
          centerBin = \<lfloor>(centerHz * real spectrumLength * 2) / AdvancedAudioAnalyzer.sampleRate a\<rfloor>;
          width = \<lfloor>real spectrumLength / real numFilters\<rfloor>
      in foldl (\<lambda>filter j.
                  filter[j := 1 - \<bar>real_of_int (int j - centerBin)\<bar> / real_of_int width])
           (replicate spectrumLength 0)
           [nat (max 0 (centerBin - width)) ..< nat (min (int spectrumLength) (centerBin + width))])"

definition createMelFilterBank :: "AdvancedAudioAnalyzer \<Rightarrow> nat \<Rightarrow> nat \<Rightarrow> real list list" where
  "createMelFilterBank a spectrumLength numFilters =
     map (melFilter a spectrumLength numFilters) [0 ..< numFilters]"

definition calculateMFCC :: "AdvancedAudioAnalyzer \<Rightarrow> uint8 list \<Rightarrow> real list" where
  "calculateMFCC a fd =
     (let numCoefficients = 13;
          melFilters = createMelFilterBank a (length fd) numCoefficients
      in map (\<lambda>i.
                let coefficient = foldl (\<lambda>c j. c + magnitudeAt fd j * (melFilters ! i ! j))
                                    0 [0 ..< length fd]
                in ln (coefficient + 1 / 10 ^ 10))
           [0 ..< numCoefficients])"

text \<open>The remainder \<^verbatim>\<open>%\<close> on whole numbers takes the sign of the dividend.\<close>

definition js_irem :: "int \<Rightarrow> int \<Rightarrow> int" where
  "js_irem k l = sgn k * (\<bar>k\<bar> mod \<bar>l\<bar>)"

definition pitchClassOf :: "real \<Rightarrow> nat" where
  "pitchClassOf frequency =
     (let A4_FREQ = 440;
          pitchClass = js_irem \<lfloor>12 * log 2 (frequency / A4_FREQ) + 1 / 2\<rfloor> 12;
          normalizedPitchClass = (if pitchClass < 0 then pitchClass + 12 else pitchClass)
      in nat normalizedPitchClass)"

definition calculateChroma :: "AdvancedAudioAnalyzer \<Rightarrow> uint8 list \<Rightarrow> real list" where
  "calculateChroma a fd =
     (let chroma1 = foldl (\<lambda>chroma i.
                       let frequency = binFrequency a fd i;
                           magnitude = magnitudeAt fd i
                       in if frequency > 80 \<and> frequency < 5000
                          then chroma[pitchClassOf frequency :=
                                        chroma ! pitchClassOf frequency + magnitude]
                          else chroma)
                     (replicate 12 0) [1 ..< length fd];
          sum = reduce_sum chroma1
      in if sum > 0 then map (\<lambda>val. val / sum) chroma1 else chroma1)"

text \<open>\<^verbatim>\<open>dotProduct\<close> walks its first argument and indexes the second; every caller
  passes two vectors of twelve entries.\<close>

definition dotProduct :: "real list \<Rightarrow> real list \<Rightarrow> real" where
  "dotProduct a b = foldl (\<lambda>sum i. sum + a ! i * b ! i) 0 [0 ..< length a]"

definition calculateTonnetz :: "AdvancedAudioAnalyzer \<Rightarrow> uint8 list \<Rightarrow> real list" where
  "calculateTonnetz a fd =
     (let chroma = calculateChroma a fd;
          majorThird = [1, 0, 0, 0, 1, 0, 0, 1, 0, 0, 0, 0];
          minorThird = [1, 0, 0, 1, 0, 0, 0, 1, 0, 0, 0, 0];
          perfectFifth = [1, 0, 0, 0, 0, 0, 0, 1, 0, 0, 0, 0]
      in [dotProduct chroma majorThird, dotProduct chroma minorThird,
          dotProduct chroma perfectFifth])"

definition isLikelyHarmonic :: "real \<Rightarrow> bool" where
  "isLikelyHarmonic frequency =
     (let fundamentalFreqs = [82, 110, 147, 196, 247, 330, 440, 587, 784]
      in list_ex (\<lambda>fundamental.
                    list_ex (\<lambda>harmonic. \<bar>frequency - fundamental * real harmonic\<bar> < 10)
                      [1 ..< 9])
           fundamentalFreqs)"

definition calculateHarmonicRatio :: "AdvancedAudioAnalyzer \<Rightarrow> uint8 list \<Rightarrow> real" where
  "calculateHarmonicRatio a fd =
     (let (harmonicEnergy, totalEnergy) =
            foldl (\<lambda>(harmonicEnergy, totalEnergy) i.
                     let magnitude = (magnitudeAt fd i) ^ 2
                     in ((if isLikelyHarmonic (binFrequency a fd i)
                          then harmonicEnergy + magnitude else harmonicEnergy),
                         totalEnergy + magnitude))
              (0, 0) [0 ..< length fd]
      in if totalEnergy > 0 then harmonicEnergy / totalEnergy else 0)"

text \<open>On an empty \<^verbatim>\<open>frequencyData\<close> the source divides 0 by 0 and the ratio is
  \<^verbatim>\<open>NaN\<close>; on a non-empty one the divisor is at least 1. Statements that depend on the
  ratio assume the frame non-empty. The start index is the floor of the exact product;
  in double arithmetic \<^verbatim>\<open>length * 0.7\<close> falls just below a whole number for some
  lengths that are multiples of 10 (90, 170, ...), and the source then starts one bin
  lower.\<close>

definition calculatePercussiveRatio ::
  "AdvancedAudioAnalyzer \<Rightarrow> uint8 list \<Rightarrow> BeatData \<Rightarrow> real" where
  "calculatePercussiveRatio a fd beatData =
     (let flux = calculateSpectralFlux a fd;
          beatConfidence = js_or (BeatData.confidence beatData) 0;
          startIdx = nat \<lfloor>real (length fd) * (7 / 10)\<rfloor>;
          highFreqEnergy = foldl (\<lambda>e i. e + (magnitudeAt fd i) ^ 2) 0 [startIdx ..< length fd];
          normalizedHighFreq = highFreqEnergy / (real (length fd) - real startIdx)
      in flux * (4 / 10) + beatConfidence * (4 / 10) + normalizedHighFreq * (2 / 10))"

definition analyzeAdvancedFeatures ::
  "AdvancedAudioAnalyzer \<Rightarrow> AudioAnalysisData \<Rightarrow> BeatData \<Rightarrow> uint8 list \<Rightarrow> uint8 list
     \<Rightarrow> AdvancedAudioFeatures \<times> AdvancedAudioAnalyzer" where
  "analyzeAdvancedFeatures a audioData beatData td fd =
     (let features =
            \<lparr> spectralCentroid = calculateSpectralCentroid a fd,
              spectralRolloff = calculateSpectralRolloff a fd (85 / 100),
              spectralFlux = calculateSpectralFlux a fd,
              zeroCrossingRate = calculateZeroCrossingRate td,
              mfcc = calculateMFCC a fd,
              chroma = calculateChroma a fd,
              tonnetz = calculateTonnetz a fd,
              harmonicRatio = calculateHarmonicRatio a fd,
              percussiveRatio = calculatePercussiveRatio a fd beatData \<rparr>;
          h = push (analysisHistory a) features
      in (features, a\<lparr> analysisHistory := (if length h > 1000 then shift h else h) \<rparr>))"

section \<open>The genre classifier (\<^verbatim>\<open>GenreClassifier\<close>)\<close>

definition calculateElectronicScore :: "AdvancedAudioFeatures \<Rightarrow> AudioAnalysisData \<Rightarrow> real" where
  "calculateElectronicScore features audioData =
     (let highFreqEnergy = treble audioData;
          flux = spectralFlux features;
          lowHarmonicRatio = 1 - harmonicRatio features
      in highFreqEnergy * (4 / 10) + flux * (3 / 10) + lowHarmonicRatio * (3 / 10))"

definition calculateAcousticScore :: "AdvancedAudioFeatures \<Rightarrow> real" where
  "calculateAcousticScore features =
     harmonicRatio features * (6 / 10) + (1 - spectralFlux features) * (4 / 10)"

definition calculateMFCCVariance :: "real list \<Rightarrow> real" where
  "calculateMFCCVariance m =
     (let mean = reduce_sum m / real (length m);
          variance = foldl (\<lambda>sum val. sum + (val - mean) ^ 2) 0 m / real (length m)
      in min 1 (sqrt variance))"

definition calculateVocalScore :: "AdvancedAudioFeatures \<Rightarrow> real" where
  "calculateVocalScore features =
     (let midRangeZCR = (if zeroCrossingRate features > 1 / 10 \<and> zeroCrossingRate features < 3 / 10
                         then 1 else 0);
          mfccVariance = calculateMFCCVariance (mfcc features)
      in midRangeZCR * (6 / 10) + mfccVariance * (4 / 10))"

definition calculateInstrumentalScore :: "AdvancedAudioFeatures \<Rightarrow> real" where
  "calculateInstrumentalScore features = 1 - calculateVocalScore features"

definition calculateRhythmicScore :: "BeatData \<Rightarrow> AdvancedAudioFeatures \<Rightarrow> real" where
  "calculateRhythmicScore beatData features =
     (let beatStrength = js_or (BeatData.confidence beatData) 0;
          percussiveness = percussiveRatio features
      in beatStrength * (7 / 10) + percussiveness * (3 / 10))"

text \<open>\<^verbatim>\<open>Math.max(...chroma)\<close> of an empty array is minus infinity; the sum of an empty
  array is zero, so the quotient is never formed then.\<close>

definition calculateTonalStability :: "real list \<Rightarrow> real" where
  "calculateTonalStability c =
     (let chromaSum = reduce_sum c
      in if chromaSum > 0 then Max (set c) / chromaSum else 0)"

definition calculateMelodicScore :: "AdvancedAudioFeatures \<Rightarrow> real" where
  "calculateMelodicScore features =
     (let harmonicity = harmonicRatio features;
          tonalStability = calculateTonalStability (chroma features)
      in harmonicity * (6 / 10) + tonalStability * (4 / 10))"

definition getSecondaryGenres :: "GenreScores \<Rightarrow> string list" where
  "getSecondaryGenres c =
     (let threshold = 1 / 2
      in take 3
           ((if electronic c > threshold then [''electronic''] else [])
            @ (if acoustic c > threshold then [''acoustic''] else [])
            @ (if rhythmic c > threshold then [''rhythmic''] else [])
            @ (if melodic c > threshold then [''melodic''] else [])))"

definition classify ::
  "AdvancedAudioFeatures \<Rightarrow> AudioAnalysisData \<Rightarrow> BeatData \<Rightarrow> GenreClassification" where
  "classify features audioData beatData =
     (let c = \<lparr> electronic = calculateElectronicScore features audioData,
                acoustic = calculateAcousticScore features,
                vocal = calculateVocalScore features,
                instrumental = calculateInstrumentalScore features,
                rhythmic = calculateRhythmicScore beatData features,
                melodic = calculateMelodicScore features \<rparr>;
          (p, conf) =
            (if electronic c > 7 / 10 \<and> rhythmic c > 6 / 10
               then (''electronic'', (electronic c + rhythmic c) / 2)
             else if acoustic c > 6 / 10 \<and> melodic c > 5 / 10
               then (''folk'', (acoustic c + melodic c) / 2)
             else if rhythmic c > 8 / 10 \<and> BeatData.tempo beatData > 120
               then (''dance'', rhythmic c)
             else if instrumental c > 7 / 10 \<and> melodic c > 6 / 10
               then (''ambient'', (instrumental c + melodic c) / 2)
             else (''unknown'', 0))
      in \<lparr> primary = p, GenreClassification.confidence = conf,
           secondary = getSecondaryGenres c, characteristics = c \<rparr>)"

section \<open>The characteristics synthesizer (\<^verbatim>\<open>generateMusicCharacteristics\<close>)\<close>

definition majorProfile :: "real list" where
  "majorProfile = [1, 0, 1, 0, 1, 1, 0, 1, 0, 1, 0, 1]"

definition getMajorKeyStrength :: "real list \<Rightarrow> real" where
  "getMajorKeyStrength c = dotProduct c majorProfile / reduce_sum majorProfile"

definition calculateValence :: "AdvancedAudioFeatures \<Rightarrow> AudioAnalysisData \<Rightarrow> real" where
  "calculateValence features audioData =
     (let majorKeyStrength = getMajorKeyStrength (chroma features);
          brightness = spectralCentroid features / 5000;
          harmonicity = harmonicRatio features
      in min 1 (majorKeyStrength * (4 / 10) + brightness * (3 / 10) + harmonicity * (3 / 10)))"

definition calculateDanceability :: "BeatData \<Rightarrow> AdvancedAudioFeatures \<Rightarrow> real" where
  "calculateDanceability beatData features =
     (let rhythmStrength = js_or (BeatData.confidence beatData) (1 / 2);
          percussiveness = percussiveRatio features;
          regularity = 1 - spectralFlux features
      in min 1 (rhythmStrength * (5 / 10) + percussiveness * (3 / 10) + regularity * (2 / 10)))"

definition calculateAcousticness :: "AdvancedAudioFeatures \<Rightarrow> real" where
  "calculateAcousticness features =
     (let lowFreqBias = 1 - spectralCentroid features / 5000;
          harmonicity = harmonicRatio features;
          naturalness = 1 - spectralFlux features
      in min 1 (lowFreqBias * (4 / 10) + harmonicity * (4 / 10) + naturalness * (2 / 10)))"

text \<open>\<^verbatim>\<open>calculateVariance\<close> returns the square root of the variance.\<close>

definition calculateVariance :: "real list \<Rightarrow> real" where
  "calculateVariance array =
     (let mean = reduce_sum array / real (length array);
          variance = foldl (\<lambda>sum val. sum + (val - mean) ^ 2) 0 array / real (length array)
      in sqrt variance)"

definition calculateInstrumentalness :: "AdvancedAudioFeatures \<Rightarrow> real" where
  "calculateInstrumentalness features =
     (let lowZCR = 1 - zeroCrossingRate features;
          mfccVariance = calculateVariance (mfcc features);
          consistency = 1 - mfccVariance
      in min 1 (lowZCR * (6 / 10) + consistency * (4 / 10)))"

definition detectMood :: "AdvancedAudioFeatures \<Rightarrow> AudioAnalysisData \<Rightarrow> Mood" where
  "detectMood features audioData =
     (let e = (bass audioData + mid audioData + treble audioData) / 3;
          v = calculateValence features audioData;
          centroid = spectralCentroid features
      in if e > 7 / 10 \<and> v > 6 / 10 then Energetic
         else if e < 4 / 10 \<and> v > 5 / 10 then Calm
         else if v < 3 / 10 \<or> centroid < 1000 then Dark
         else if v > 7 / 10 \<and> centroid > 2000 then Uplifting
         else if e < 5 / 10 \<and> v < 5 / 10 then Mysterious
         else if v > 6 / 10 \<and> e < 6 / 10 then Romantic
         else if e > 8 / 10 \<and> percussiveRatio features > 7 / 10 then Aggressive
         else Calm)"

definition keys :: "string list" where
  "keys = [''C'', ''C#'', ''D'', ''D#'', ''E'', ''F'', ''F#'', ''G'', ''G#'', ''A'', ''A#'', ''B'']"

definition detectKey :: "real list \<Rightarrow> string" where
  "detectKey c =
     snd (foldl (\<lambda>(maxCorrelation, detectedKey) i.
                   let rotatedProfile = drop i majorProfile @ take i majorProfile;
                       correlation = dotProduct c rotatedProfile
                   in if correlation > maxCorrelation then (correlation, keys ! i)
                      else (maxCorrelation, detectedKey))
            (- 1, ''C'') [0 ..< 12])"

definition generateMusicCharacteristics ::
  "AdvancedAudioAnalyzer \<Rightarrow> AudioAnalysisData \<Rightarrow> BeatData \<Rightarrow> AdvancedAudioFeatures
     \<Rightarrow> MusicCharacteristics" where
  "generateMusicCharacteristics a audioData beatData advancedFeatures =
     (let g = classify advancedFeatures audioData beatData
      in \<lparr> MusicCharacteristics.tempo = js_or (BeatData.tempo beatData) 120,
           energy = (bass audioData + mid audioData + treble audioData) / 3,
           valence = calculateValence advancedFeatures audioData,
           danceability = calculateDanceability beatData advancedFeatures,
           acousticness = calculateAcousticness advancedFeatures,
           instrumentalness = calculateInstrumentalness advancedFeatures,
           genre = primary g,
           mood = detectMood advancedFeatures audioData,
           MusicCharacteristics.timeSignature = js_or (BeatData.timeSignature beatData) 4,
           key = detectKey (chroma advancedFeatures) \<rparr>)"

text \<open>One pass of the analysis loop: the detector, then the feature extractor, then the
  synthesizer, all on the same frame.\<close>

definition animate ::
  "AdvancedBeatDetector \<times> AdvancedAudioAnalyzer \<Rightarrow> AudioAnalysisData \<Rightarrow> real
     \<Rightarrow> (BeatData \<times> MusicCharacteristics) \<times> (AdvancedBeatDetector \<times> AdvancedAudioAnalyzer)" where
  "animate st analysisData now =
     (let (beatAnalysis, s1) = analyzeFrame (fst st) analysisData now;
          (advancedFeatures, a1) =
             analyzeAdvancedFeatures (snd st) analysisData beatAnalysis
               (timeData analysisData) (frequencyData analysisData);
          musicChars = generateMusicCharacteristics a1 analysisData beatAnalysis advancedFeatures
      in ((beatAnalysis, musicChars), (s1, a1)))"

fun playback ::
  "AdvancedBeatDetector \<times> AdvancedAudioAnalyzer \<Rightarrow> (AudioAnalysisData \<times> real) list
     \<Rightarrow> (BeatData \<times> MusicCharacteristics) list" where
  "playback st [] = []"
| "playback st (tick # ticks) =
     (let (out, st1) = animate st (fst tick) (snd tick)
      in out # playback st1 ticks)"

section \<open>The specification's vocabulary\<close>

text \<open>The definitions of this section follow the words of the specification, not the
  source: a capped first-in first-out history, the mean and the variance of a window, the
  three-part acceptance test of an onset, and the tempo estimate.\<close>

definition fifo_push :: "nat \<Rightarrow> 'a list \<Rightarrow> 'a \<Rightarrow> 'a list" where
  "fifo_push cap xs x = (if length xs < cap then xs @ [x] else tl (xs @ [x]))"

definition spec_mean :: "real list \<Rightarrow> real" where
  "spec_mean xs = sum_list xs / real (length xs)"

definition spec_variance :: "real list \<Rightarrow> real" where
  "spec_variance xs = sum_list (map (\<lambda>x. (x - spec_mean xs) ^ 2) xs) / real (length xs)"

definition spec_energyRatio :: "real list \<Rightarrow> real \<Rightarrow> real" where
  "spec_energyRatio eh e = e / (spec_mean (slice_last 10 eh) + 1 / 1000)"

definition spec_accept :: "real list \<Rightarrow> real list \<Rightarrow> real \<Rightarrow> real \<Rightarrow> bool" where
  "spec_accept eh bh e elapsed \<longleftrightarrow>
     spec_energyRatio eh e > 13 / 10 + sqrt (spec_variance (slice_last 10 eh))
     \<and> elapsed \<ge> 300
     \<and> bh \<noteq> [] \<and> last bh > spec_mean bh * (12 / 10)"

text \<open>The tempo that is held when no new estimate is made, and the estimate as the
  source computes it: both the beats per minute and the smoothed value are rounded, and
  the first estimate is smoothed against itself.\<close>

definition held_tempo :: "real list \<Rightarrow> real" where
  "held_tempo th = (if th = [] then 120 else last th)"

definition smoothed_tempo :: "real list \<Rightarrow> real list \<Rightarrow> real" where
  "smoothed_tempo th survivors =
     (let newTempo = Math_round (60000 / spec_mean survivors);
          previous = (if th = [] then newTempo else last th)
      in max 60 (min 200 (Math_round (9 / 10 * previous + 1 / 10 * newTempo))))"






text \<open>The ranges of the specification, and the two facts about a detector that keep
  them true from one tick to the next.\<close>

definition in_range :: "BeatData \<Rightarrow> bool" where
  "in_range out \<longleftrightarrow>
     0 \<le> BeatData.confidence out \<and> BeatData.confidence out \<le> 1
     \<and> 0 \<le> BeatData.beatPhase out \<and> BeatData.beatPhase out < 1
     \<and> 60 \<le> BeatData.tempo out \<and> BeatData.tempo out \<le> 200"

definition tempo_ok :: "real list \<Rightarrow> bool" where
  "tempo_ok th \<longleftrightarrow> list_all (\<lambda>x. 60 \<le> x \<and> x \<le> 200) th"

definition clock_ok :: "AdvancedBeatDetector \<Rightarrow> real \<Rightarrow> bool" where
  "clock_ok s now \<longleftrightarrow> lastBeatTime s = 0 \<or> lastBeatTime s \<le> now"

text \<open>A silent frame: both arrays are all zero, and the three band levels are the ones
  the frame source computes from the frequency array, at any sample rate of the audio
  context. What the specification expects of every output on silence, with the mood that
  the source gives.\<close>

definition silentFrame :: "real \<Rightarrow> AudioAnalysisData \<Rightarrow> bool" where
  "silentFrame rate d \<longleftrightarrow>
     frequencyData d \<noteq> []
     \<and> list_all (\<lambda>v. v = 0) (frequencyData d) \<and> list_all (\<lambda>v. v = 0) (timeData d)
     \<and> bass d = getFrequencyBandAverage rate (frequencyData d) 0 60
     \<and> mid d = getFrequencyBandAverage rate (frequencyData d) 60 250
     \<and> treble d = getFrequencyBandAverage rate (frequencyData d) 250 500"

definition quietly :: "real \<Rightarrow> BeatData \<times> MusicCharacteristics \<Rightarrow> bool" where
  "quietly tp out \<longleftrightarrow>
     isBeat (fst out) = False \<and> BeatData.tempo (fst out) = tp
     \<and> energy (snd out) = 0 \<and> mood (snd out) = Dark"

text \<open>The spectral flux as the specification words it: a sum over the first 128 bins,
  against the previous \<^verbatim>\<open>mfcc\<close> vector, with baseline 0 beyond its length.\<close>

definition baseline :: "real list \<Rightarrow> nat \<Rightarrow> real" where
  "baseline m i = (if i < length m then m ! i else 0)"

definition claimed_flux :: "real list \<Rightarrow> uint8 list \<Rightarrow> real" where
  "claimed_flux m fd =
     sum_list (map (\<lambda>i. max 0 (magnitudeAt fd i - baseline m i)) [0 ..< min (length fd) 128])"

text \<open>Two stages of \<^verbatim>\<open>analyze\<close>, named for the proofs: the detector once the four
  histories have taken the tick's values, and the tempo step on the beat timestamps.\<close>

definition entered ::
  "AdvancedBeatDetector \<Rightarrow> real \<Rightarrow> real \<Rightarrow> real \<Rightarrow> real \<Rightarrow> AdvancedBeatDetector" where
  "entered s e b m t =
     s\<lparr> bassHistory := fifo_push 20 (bassHistory s) b,
        midHistory := fifo_push 20 (midHistory s) m,
        trebleHistory := fifo_push 20 (trebleHistory s) t,
        energyHistory := fifo_push 43 (energyHistory s) e \<rparr>"

text \<open>The body of the loop of \<^verbatim>\<open>calculateChroma\<close>.\<close>

definition chromaStep ::
  "AdvancedAudioAnalyzer \<Rightarrow> uint8 list \<Rightarrow> real list \<Rightarrow> nat \<Rightarrow> real list" where
  "chromaStep a fd c i =
     (let frequency = binFrequency a fd i;
          magnitude = magnitudeAt fd i
      in if frequency > 80 \<and> frequency < 5000
         then c[pitchClassOf frequency := c ! pitchClassOf frequency + magnitude]
         else c)"

definition tempo_step :: "real list \<Rightarrow> real list \<Rightarrow> real \<times> real list" where
  "tempo_step bh th =
     (if length bh < 2 then (held_tempo th, th)
      else if validIntervals (intervals bh) = [] then (120, th)
      else (smoothed_tempo th (validIntervals (intervals bh)),
            fifo_push 10 th (smoothed_tempo th (validIntervals (intervals bh)))))"

section \<open>A recorded session\<close>

text \<open>Twelve ticks on a detector built with the default arguments: nine quiet frames,
  then three loud ones at 1000 ms, 1450 ms and 1950 ms. The frames have four bins.\<close>

definition quietData :: AudioAnalysisData where
  "quietData = \<lparr> frequencyData = [0, 0, 0, 0], timeData = [128, 128, 128, 128], volume = 0,
     bass = 0, mid = 0, treble = 0, beat = False, AudioAnalysisData.tempo = 0 \<rparr>"

definition loudData :: AudioAnalysisData where
  "loudData = \<lparr> frequencyData = [255, 255, 255, 255], timeData = [128, 128, 128, 128],
     volume = 0, bass = 1, mid = 1, treble = 1, beat = False, AudioAnalysisData.tempo = 0 \<rparr>"

definition quiet9 :: "(AudioAnalysisData \<times> real) list" where
  "quiet9 = [(quietData, 100), (quietData, 200), (quietData, 300), (quietData, 400),
     (quietData, 500), (quietData, 600), (quietData, 700), (quietData, 800), (quietData, 900)]"

definition beats3 :: "(AudioAnalysisData \<times> real) list" where
  "beats3 = [(loudData, 1000), (loudData, 1450), (loudData, 1950)]"

definition session :: "(AudioAnalysisData \<times> real) list" where
  "session = quiet9 @ beats3"

text \<open>The detectors and the outputs that the session passes through.\<close>

definition det ::
  "real list \<Rightarrow> real list \<Rightarrow> real list \<Rightarrow> real \<Rightarrow> real list \<Rightarrow> bool list
     \<Rightarrow> AdvancedBeatDetector" where
  "det eh bh th lb bands pb =
     \<lparr> AdvancedBeatDetector.sampleRate = 44100, bufferSize = 1024, energyHistory = eh,
       beatHistory = bh, tempoHistory = th, lastBeatTime = lb, beatInterval = 0,
       AdvancedBeatDetector.beatPhase = 0, bassHistory = bands, midHistory = bands,
       trebleHistory = bands, rhythmPatterns = [], patternBuffer = pb \<rparr>"

definition coldOut :: BeatData where
  "coldOut = \<lparr> isBeat = False, BeatData.confidence = 0, tempo = 120, timeSignature = 4,
      BeatData.beatPhase = 0, intensity = 0 \<rparr>"

definition beatOut :: "real \<Rightarrow> BeatData" where
  "beatOut tp = \<lparr> isBeat = True, BeatData.confidence = 1, tempo = tp, timeSignature = 4,
      BeatData.beatPhase = 0, intensity = 1 \<rparr>"

abbreviation Z9 :: "real list" where
  "Z9 \<equiv> [0, 0, 0, 0, 0, 0, 0, 0, 0]"

abbreviation E10 :: "real list" where
  "E10 \<equiv> [0, 0, 0, 0, 0, 0, 0, 0, 0, 1]"

abbreviation E11 :: "real list" where
  "E11 \<equiv> [0, 0, 0, 0, 0, 0, 0, 0, 0, 1, 1]"

abbreviation E12 :: "real list" where
  "E12 \<equiv> [0, 0, 0, 0, 0, 0, 0, 0, 0, 1, 1, 1]"

abbreviation F9 :: "bool list" where
  "F9 \<equiv> [False, False, False, False, False, False, False, False, False]"

abbreviation P10 :: "bool list" where
  "P10 \<equiv> [False, False, False, False, False, False, False, False, False, True]"

abbreviation P11 :: "bool list" where
  "P11 \<equiv> [False, False, False, False, False, False, False, False, False, True, True]"

abbreviation P12 :: "bool list" where
  "P12 \<equiv> [False, False, False, False, False, False, False, False, False, True, True, True]"

section \<open>Test frames for the feature extractor\<close>

text \<open>Sixteen bins, the smallest frame the platform's analyser delivers: all zero, and
  zero but for the three highest bins, which lie at 17915, 19293 and 20671 Hz. With
  sixteen bins the three bands of the frame source are empty, so the band levels are 0.\<close>

definition quiet16 :: "uint8 list" where
  "quiet16 = replicate 16 0"

definition quiet16Data :: AudioAnalysisData where
  "quiet16Data = \<lparr> frequencyData = quiet16, timeData = replicate 16 128, volume = 0,
     bass = 0, mid = 0, treble = 0, beat = False, AudioAnalysisData.tempo = 0 \<rparr>"

text \<open>Silence: sixteen zero bins, a zero waveform (so the volume of the frame source is
  1), and the band levels of the frame source. A hundred ticks of it, 16 ms apart.\<close>

definition silentData :: AudioAnalysisData where
  "silentData = \<lparr> frequencyData = quiet16, timeData = replicate 16 0, volume = 1,
     bass = 0, mid = 0, treble = 0, beat = False, AudioAnalysisData.tempo = 0 \<rparr>"

definition silence100 :: "(AudioAnalysisData \<times> real) list" where
  "silence100 = map (\<lambda>k. (silentData, 16 * real k)) [0 ..< 100]"

definition bright16 :: "uint8 list" where
  "bright16 = replicate 13 0 @ [255, 255, 255]"

definition brightData :: AudioAnalysisData where
  "brightData = \<lparr> frequencyData = bright16, timeData = replicate 16 128, volume = 0,
     bass = 0, mid = 0, treble = 0, beat = False, AudioAnalysisData.tempo = 0 \<rparr>"

text \<open>Sixteen bins with full magnitude in the lowest bin only, which lies at 0 Hz; the
  three bands of the frame source are still empty.\<close>

definition low16 :: "uint8 list" where
  "low16 = 255 # replicate 15 0"

definition lowData :: AudioAnalysisData where
  "lowData = \<lparr> frequencyData = low16, timeData = replicate 16 128, volume = 0,
     bass = 0, mid = 0, treble = 0, beat = False, AudioAnalysisData.tempo = 0 \<rparr>"

text \<open>A synthetic spectrum of 2205 bins, so that bin \<open>i\<close> lies at \<open>10 * i\<close> Hz at the
  analyzer's sample rate of 44100. Full magnitude at 440 Hz, 880 Hz and 1320 Hz, the
  first three harmonics of A4, and at 490, 550, 590, 660, 740 and 830 Hz, the bins
  nearest to B4, C#5, D5, E5, F#5 and G#5, the other degrees of the scale of A major;
  nothing elsewhere.\<close>

definition a_major_frame :: "uint8 list" where
  "a_major_frame =
     map (\<lambda>i. if i = 44 \<or> i = 49 \<or> i = 55 \<or> i = 59 \<or> i = 66 \<or> i = 74 \<or> i = 83
                 \<or> i = 88 \<or> i = 132 then 255 else 0) [0 ..< 2205]"

section \<open>Lemmas about the beat detector\<close>

lemma foldl_add_sum: "foldl (\<lambda>sum val. sum + f val) a xs = a + sum_list (map f xs)" for a :: real
  by (induction xs arbitrary: a) (simp_all add: algebra_simps)

lemma reduce_sum_sum_list: "reduce_sum xs = sum_list xs"
  using foldl_add_sum [of "\<lambda>x. x" 0 xs] by (simp add: reduce_sum_def)

lemma code_mean: "reduce_sum xs / real (length xs) = spec_mean xs"
  by (simp add: reduce_sum_sum_list spec_mean_def)

lemma code_variance:
  "foldl (\<lambda>sum val. sum + (val - spec_mean xs) ^ 2) 0 xs / real (length xs) = spec_variance xs"
  by (simp add: foldl_add_sum spec_variance_def)

lemma spec_variance_nonneg: "0 \<le> spec_variance xs"
  unfolding spec_variance_def
  by (intro divide_nonneg_nonneg sum_list_nonneg) auto

lemma detectBeat_result:
  "fst (detectBeat s e now) =
     (if length (energyHistory s) < 10 then (False, 0)
      else if spec_accept (energyHistory s) (bassHistory s) e (now - lastBeatTime s)
        then (True, min 1 ((spec_energyRatio (energyHistory s) e - 1) * (1 / 2)))
        else (False, 0))"
  unfolding detectBeat_def Let_def code_mean code_variance spec_accept_def spec_energyRatio_def
    energyThreshold_def minBeatInterval_def
  by (simp del: times_divide_eq_left times_divide_eq_right)

lemma detectBeat_state:
  "snd (detectBeat s e now) =
     (if fst (fst (detectBeat s e now))
      then s\<lparr> lastBeatTime := now, beatHistory := fifo_push 8 (beatHistory s) now \<rparr>
      else s)"
  unfolding detectBeat_def Let_def fifo_push_def push_def shift_def
  by simp

lemma calculateTempo_result:
  "calculateTempo s now b =
     (if \<not> b \<or> length (beatHistory s) < 2 then (held_tempo (tempoHistory s), s)
      else if validIntervals (intervals (beatHistory s)) = [] then (120, s)
      else (smoothed_tempo (tempoHistory s) (validIntervals (intervals (beatHistory s))),
            s\<lparr> tempoHistory := fifo_push 10 (tempoHistory s)
                 (smoothed_tempo (tempoHistory s) (validIntervals (intervals (beatHistory s)))) \<rparr>))"
  unfolding calculateTempo_def Let_def code_mean held_tempo_def smoothed_tempo_def fifo_push_def
    push_def shift_def tempoSmoothingFactor_def
  by (simp add: mult.commute)

lemma analyze_unfold:
  "analyze s fd td b m t now =
     (let e = calculateEnergy fd;
          r = detectBeat (entered s e b m t) e now;
          c = calculateTempo (snd r) now (fst (fst r));
          s5 = updateBeatPhase (snd c) now (fst c);
          s6 = updateRhythmPatterns s5 (fst (fst r))
      in (\<lparr> isBeat = fst (fst r), BeatData.confidence = snd (fst r), tempo = fst c,
            timeSignature = estimateTimeSignature s6,
            BeatData.beatPhase = AdvancedBeatDetector.beatPhase s6,
            intensity = calculateIntensity b m t e \<rparr>, s6))"
  unfolding analyze_def entered_def fifo_push_def updateFrequencyHistories_def
      push_def shift_def historySize_def Let_def
  by (simp add: case_prod_unfold)

lemma updateRhythmPatterns_fields [simp]:
  "energyHistory (updateRhythmPatterns s b) = energyHistory s"
  "bassHistory (updateRhythmPatterns s b) = bassHistory s"
  "beatHistory (updateRhythmPatterns s b) = beatHistory s"
  "tempoHistory (updateRhythmPatterns s b) = tempoHistory s"
  "lastBeatTime (updateRhythmPatterns s b) = lastBeatTime s"
  "AdvancedBeatDetector.beatPhase (updateRhythmPatterns s b) = AdvancedBeatDetector.beatPhase s"
  "AdvancedBeatDetector.sampleRate (updateRhythmPatterns s b) = AdvancedBeatDetector.sampleRate s"
  "bufferSize (updateRhythmPatterns s b) = bufferSize s"
  "beatInterval (updateRhythmPatterns s b) = beatInterval s"
  unfolding updateRhythmPatterns_def analyzeRhythmPatterns_def Let_def
  by simp_all

lemma updateBeatPhase_fields [simp]:
  "energyHistory (updateBeatPhase s now t) = energyHistory s"
  "bassHistory (updateBeatPhase s now t) = bassHistory s"
  "beatHistory (updateBeatPhase s now t) = beatHistory s"
  "tempoHistory (updateBeatPhase s now t) = tempoHistory s"
  "lastBeatTime (updateBeatPhase s now t) = lastBeatTime s"
  "AdvancedBeatDetector.sampleRate (updateBeatPhase s now t) = AdvancedBeatDetector.sampleRate s"
  "bufferSize (updateBeatPhase s now t) = bufferSize s"
  "beatInterval (updateBeatPhase s now t) = beatInterval s"
  unfolding updateBeatPhase_def Let_def
  by simp_all

lemma calculateTempo_fields [simp]:
  "energyHistory (snd (calculateTempo s now b)) = energyHistory s"
  "bassHistory (snd (calculateTempo s now b)) = bassHistory s"
  "beatHistory (snd (calculateTempo s now b)) = beatHistory s"
  "lastBeatTime (snd (calculateTempo s now b)) = lastBeatTime s"
  "AdvancedBeatDetector.sampleRate (snd (calculateTempo s now b)) = AdvancedBeatDetector.sampleRate s"
  "bufferSize (snd (calculateTempo s now b)) = bufferSize s"
  "beatInterval (snd (calculateTempo s now b)) = beatInterval s"
  by (simp_all add: calculateTempo_result)

lemma detectBeat_fields [simp]:
  "energyHistory (snd (detectBeat s e now)) = energyHistory s"
  "bassHistory (snd (detectBeat s e now)) = bassHistory s"
  "tempoHistory (snd (detectBeat s e now)) = tempoHistory s"
  "AdvancedBeatDetector.sampleRate (snd (detectBeat s e now)) = AdvancedBeatDetector.sampleRate s"
  "bufferSize (snd (detectBeat s e now)) = bufferSize s"
  "beatInterval (snd (detectBeat s e now)) = beatInterval s"
  by (simp_all add: detectBeat_state)

lemma entered_fields [simp]:
  "energyHistory (entered s e b m t) = fifo_push 43 (energyHistory s) e"
  "bassHistory (entered s e b m t) = fifo_push 20 (bassHistory s) b"
  "beatHistory (entered s e b m t) = beatHistory s"
  "tempoHistory (entered s e b m t) = tempoHistory s"
  "lastBeatTime (entered s e b m t) = lastBeatTime s"
  "AdvancedBeatDetector.sampleRate (entered s e b m t) = AdvancedBeatDetector.sampleRate s"
  "bufferSize (entered s e b m t) = bufferSize s"
  "beatInterval (entered s e b m t) = beatInterval s"
  by (simp_all add: entered_def)

lemma fifo_push_nonempty [simp]: "0 < cap \<Longrightarrow> fifo_push cap xs x \<noteq> []"
  by (cases xs) (simp_all add: fifo_push_def)

lemma energy_quiet: "calculateEnergy [0, 0, 0, 0] = 0"
  by (simp add: calculateEnergy_def byte_def)

lemma energy_loud: "calculateEnergy [255, 255, 255, 255] = 1"
  by (simp add: calculateEnergy_def byte_def real_sqrt_divide)

lemma det_fields [simp]:
  "energyHistory (det eh bh th lb bands pb) = eh"
  "beatHistory (det eh bh th lb bands pb) = bh"
  "tempoHistory (det eh bh th lb bands pb) = th"
  "lastBeatTime (det eh bh th lb bands pb) = lb"
  "bassHistory (det eh bh th lb bands pb) = bands"
  "patternBuffer (det eh bh th lb bands pb) = pb"
  by (simp_all add: det_def)

lemma new_det: "new_detector 44100 1024 = det [] [] [] 0 [] []"
  by (simp add: new_detector_def det_def)

lemma quiet_step:
  "length eh < 9 \<Longrightarrow> length pb < 15 \<Longrightarrow>
   analyzeFrame (det eh [] [] 0 eh pb) quietData now = (coldOut, det (eh @ [0]) [] [] 0 (eh @ [0]) (pb @ [False]))"
  unfolding analyzeFrame_def analyze_unfold quietData_def
  by (simp add: energy_quiet det_def entered_def fifo_push_def detectBeat_result detectBeat_state
      calculateTempo_result held_tempo_def updateBeatPhase_def updateRhythmPatterns_def
      estimateTimeSignature_def calculateIntensity_def push_def shift_def coldOut_def Let_def)

lemma beat_step:
  assumes "length eh < 43" "9 \<le> length eh" "length bands < 20" "length pb < 15" "length bh < 8"
    and "calculateEnergy fd = e"
    and "spec_accept (eh @ [e]) (bands @ [b]) e (now - lb)"
  shows "analyze (det eh bh th lb bands pb) fd td b b b now =
     (\<lparr> isBeat = True,
        BeatData.confidence = min 1 ((spec_energyRatio (eh @ [e]) e - 1) * (1 / 2)),
        tempo = fst (tempo_step (bh @ [now]) th), timeSignature = 4,
        BeatData.beatPhase = 0, intensity = calculateIntensity b b b e \<rparr>,
      det (eh @ [e]) (bh @ [now]) (snd (tempo_step (bh @ [now]) th)) now (bands @ [b]) (pb @ [True]))"
proof -
  define s1 where "s1 = det (eh @ [e]) bh th lb (bands @ [b]) pb"
  define s3 where "s3 = det (eh @ [e]) (bh @ [now]) th now (bands @ [b]) pb"
  define s4 where "s4 = det (eh @ [e]) (bh @ [now]) (snd (tempo_step (bh @ [now]) th)) now (bands @ [b]) pb"
  have e1: "entered (det eh bh th lb bands pb) e b b b = s1"
    using assms(1,3) by (simp add: entered_def det_def fifo_push_def s1_def)
  have d1: "detectBeat s1 e now =
      ((True, min 1 ((spec_energyRatio (eh @ [e]) e - 1) * (1 / 2))), s3)"
    using assms(2,5,7)
    by (simp add: prod_eq_iff detectBeat_result detectBeat_state s1_def s3_def det_def fifo_push_def)
  have c1: "calculateTempo s3 now True = (fst (tempo_step (bh @ [now]) th), s4)"
    by (simp add: calculateTempo_result tempo_step_def s3_def s4_def det_def)
  have p1: "updateBeatPhase s4 now tp = s4" for tp
    by (simp add: updateBeatPhase_def s4_def det_def js_rem_def trunc_def)
  have r1: "updateRhythmPatterns s4 True =
      det (eh @ [e]) (bh @ [now]) (snd (tempo_step (bh @ [now]) th)) now (bands @ [b]) (pb @ [True])"
    using assms(4) by (simp add: updateRhythmPatterns_def s4_def det_def push_def shift_def Let_def)
  have t1: "estimateTimeSignature (det x1 x2 x3 x4 x5 x6) = 4" for x1 x2 x3 x4 x5 x6
    by (simp add: estimateTimeSignature_def det_def)
  show ?thesis
    unfolding analyze_unfold Let_def assms(6) e1 d1 fst_conv snd_conv c1 p1 r1 t1
    by (simp add: det_def)
qed

lemma sqrt_9_100: "sqrt (9 / 100) = 3 / 10"
  by (simp add: real_sqrt_divide)

lemma sqrt_4_25: "sqrt (4 / 25) = 2 / 5"
  by (simp add: real_sqrt_divide)

lemma sqrt_21_100: "sqrt (21 / 100) < 1"
  by (simp add: real_sqrt_lt_1_iff)

lemma window1: "slice_last 10 E10 = [0, 0, 0, 0, 0, 0, 0, 0, 0, 1]"
  and window2: "slice_last 10 E11 = [0, 0, 0, 0, 0, 0, 0, 0, 1, 1]"
  and window3: "slice_last 10 E12 = [0, 0, 0, 0, 0, 0, 0, 1, 1, 1]"
  by (simp_all add: slice_last_def)

lemma stats1: "spec_mean [0, 0, 0, 0, 0, 0, 0, 0, 0, 1] = 1 / 10"
    "spec_variance [0, 0, 0, 0, 0, 0, 0, 0, 0, 1] = 9 / 100"
  by (simp_all add: spec_mean_def spec_variance_def power2_eq_square)

lemma stats2: "spec_mean [0, 0, 0, 0, 0, 0, 0, 0, 1, 1] = 1 / 5"
    "spec_variance [0, 0, 0, 0, 0, 0, 0, 0, 1, 1] = 4 / 25"
  by (simp_all add: spec_mean_def spec_variance_def power2_eq_square)

lemma stats3: "spec_mean [0, 0, 0, 0, 0, 0, 0, 1, 1, 1] = 3 / 10"
    "spec_variance [0, 0, 0, 0, 0, 0, 0, 1, 1, 1] = 21 / 100"
  by (simp_all add: spec_mean_def spec_variance_def power2_eq_square)

lemma bands1: "spec_mean E10 = 1 / 10" "last E10 = 1"
  and bands2: "spec_mean E11 = 2 / 11" "last E11 = 1"
  and bands3: "spec_mean E12 = 3 / 12" "last E12 = 1"
  by (simp_all add: spec_mean_def)

lemma ratio1: "spec_energyRatio E10 1 = 1000 / 101"
  and ratio2: "spec_energyRatio E11 1 = 1000 / 201"
  and ratio3: "spec_energyRatio E12 1 = 1000 / 301"
  by (simp_all add: spec_energyRatio_def window1 window2 window3 stats1 stats2 stats3)

lemma accept1: "spec_accept E10 E10 1 (1000 - 0)"
  unfolding spec_accept_def ratio1 window1 stats1 bands1 sqrt_9_100 by simp

lemma accept2: "spec_accept E11 E11 1 (1450 - 1000)"
  unfolding spec_accept_def ratio2 window2 stats2 bands2 sqrt_4_25 by simp

lemma accept3: "spec_accept E12 E12 1 (1950 - 1450)"
proof -
  have "13 / 10 + sqrt (21 / 100) < 1000 / 301"
    using sqrt_21_100 by linarith
  moreover have "(300::real) \<le> 1950 - 1450" "E12 \<noteq> []" "(3::real) / 12 * (12 / 10) < 1"
    by simp_all
  ultimately show ?thesis
    unfolding spec_accept_def ratio3 window3 stats3 bands3 by (intro conjI)
qed

lemma intervals2: "intervals [1000, 1450] = [450]"
  and intervals3: "intervals [1000, 1450, 1950] = [450, 500]"
  by (simp_all add: intervals_def upt_rec)

lemma median2: "median [450] = Some 450"
  and median3: "median [450, 500] = Some 475"
  by (simp_all add: median_def)

lemma valid2: "validIntervals [450] = [450]"
  and valid3: "validIntervals [450, 500] = [450, 500]"
  by (simp_all add: validIntervals_def median2 median3)

lemma smoothed2: "smoothed_tempo [] [450] = 133"
  and smoothed3: "smoothed_tempo [133] [450, 500] = 132"
  by (simp_all add: smoothed_tempo_def spec_mean_def Math_round_def)

lemma tempo_step1: "tempo_step [1000] th = (held_tempo th, th)"
  and tempo_step2: "tempo_step [1000, 1450] [] = (133, [133])"
  and tempo_step3: "tempo_step [1000, 1450, 1950] [133] = (132, [133, 132])"
  by (simp_all add: tempo_step_def intervals2 intervals3 valid2 valid3 smoothed2 smoothed3
      fifo_push_def)

lemma analyze_lastBeatTime:
  "lastBeatTime (snd (analyze s fd td b m t now)) =
     (if isBeat (fst (analyze s fd td b m t now)) then now else lastBeatTime s)"
  by (simp add: analyze_unfold Let_def detectBeat_state)

lemma analyze_beat_elapsed:
  "isBeat (fst (analyze s fd td b m t now)) \<Longrightarrow> 300 \<le> now - lastBeatTime s"
  by (simp add: analyze_unfold Let_def detectBeat_result spec_accept_def split: if_splits)

lemma length_feed [simp]: "length (fst (feed s ticks)) = length ticks"
  by (induction ticks arbitrary: s) (simp_all add: case_prod_unfold Let_def)

lemma feed_Cons_fst:
  "fst (feed s (tick # ticks)) =
     fst (analyzeFrame s (fst tick) (snd tick)) # fst (feed (snd (analyzeFrame s (fst tick) (snd tick))) ticks)"
  by (simp add: case_prod_unfold Let_def)

lemma feed_Cons_snd:
  "snd (feed s (tick # ticks)) = snd (feed (snd (analyzeFrame s (fst tick) (snd tick))) ticks)"
  by (simp add: case_prod_unfold Let_def)

declare feed.simps(2) [simp del]

lemma feed_beats_later:
  "j < length ticks \<Longrightarrow> isBeat (fst (feed s ticks) ! j) \<Longrightarrow> lastBeatTime s + 300 \<le> snd (ticks ! j)"
proof (induction ticks arbitrary: s j)
  case Nil
  then show ?case by simp
next
  case (Cons tick ticks)
  let ?r = "analyzeFrame s (fst tick) (snd tick)"
  show ?case
  proof (cases j)
    case 0
    then have "isBeat (fst ?r)" using Cons.prems by (simp add: feed_Cons_fst)
    then have "300 \<le> snd tick - lastBeatTime s"
      unfolding analyzeFrame_def by (rule analyze_beat_elapsed)
    then show ?thesis using 0 by simp
  next
    case (Suc k)
    then have k: "k < length ticks" and b: "isBeat (fst (feed (snd ?r) ticks) ! k)"
      using Cons.prems by (simp_all add: feed_Cons_fst)
    have later: "lastBeatTime (snd ?r) + 300 \<le> snd (ticks ! k)"
      using Cons.IH [OF k b] .
    have "lastBeatTime s \<le> lastBeatTime (snd ?r)"
    proof (cases "isBeat (fst ?r)")
      case True
      then have "300 \<le> snd tick - lastBeatTime s" "lastBeatTime (snd ?r) = snd tick"
        unfolding analyzeFrame_def by (simp_all add: analyze_beat_elapsed analyze_lastBeatTime)
      then show ?thesis by simp
    next
      case False
      then show ?thesis unfolding analyzeFrame_def by (simp add: analyze_lastBeatTime)
    qed
    then show ?thesis using later Suc by simp
  qed
qed

lemma js_rem_phase:
  assumes "0 \<le> a" "0 < b"
  shows "0 \<le> js_rem a b / b \<and> js_rem a b / b < 1"
proof -
  have q: "0 \<le> a / b" using assms by simp
  have "js_rem a b / b = a / b - of_int \<lfloor>a / b\<rfloor>"
    using assms(2) q by (simp add: js_rem_def trunc_def diff_divide_distrib)
  moreover have "of_int \<lfloor>a / b\<rfloor> \<le> a / b" "a / b < of_int \<lfloor>a / b\<rfloor> + 1"
    by linarith+
  ultimately show ?thesis by linarith
qed

lemma held_tempo_range: "tempo_ok th \<Longrightarrow> 60 \<le> held_tempo th \<and> held_tempo th \<le> 200"
  by (cases th rule: rev_cases) (simp_all add: held_tempo_def tempo_ok_def)

lemma smoothed_tempo_range: "60 \<le> smoothed_tempo th v \<and> smoothed_tempo th v \<le> 200"
  by (simp add: smoothed_tempo_def Let_def)

lemma tempo_ok_fifo_push: "tempo_ok th \<Longrightarrow> 60 \<le> x \<Longrightarrow> x \<le> 200 \<Longrightarrow> tempo_ok (fifo_push n th x)"
  by (cases th) (simp_all add: tempo_ok_def fifo_push_def)

lemma calculateTempo_range:
  "tempo_ok (tempoHistory s) \<Longrightarrow>
   60 \<le> fst (calculateTempo s now b) \<and> fst (calculateTempo s now b) \<le> 200
   \<and> tempo_ok (tempoHistory (snd (calculateTempo s now b)))"
  using held_tempo_range [of "tempoHistory s"]
    smoothed_tempo_range [of "tempoHistory s" "validIntervals (intervals (beatHistory s))"]
  by (simp add: calculateTempo_result tempo_ok_fifo_push)

lemma detectBeat_confidence:
  "0 \<le> snd (fst (detectBeat s e now)) \<and> snd (fst (detectBeat s e now)) \<le> 1"
proof -
  have "0 \<le> (spec_energyRatio (energyHistory s) e - 1) * (1 / 2)"
    if "spec_accept (energyHistory s) (bassHistory s) e (now - lastBeatTime s)"
  proof -
    have "13 / 10 + sqrt (spec_variance (slice_last 10 (energyHistory s)))
            < spec_energyRatio (energyHistory s) e"
      using that by (simp add: spec_accept_def)
    moreover have "0 \<le> sqrt (spec_variance (slice_last 10 (energyHistory s)))"
      by (simp add: spec_variance_nonneg)
    ultimately have "13 / 10 < spec_energyRatio (energyHistory s) e" by linarith
    then show ?thesis by simp
  qed
  then show ?thesis by (simp add: detectBeat_result)
qed

lemma updateBeatPhase_range:
  assumes "clock_ok s now" "60 \<le> tp"
  shows "0 \<le> AdvancedBeatDetector.beatPhase (updateBeatPhase s now tp)
     \<and> AdvancedBeatDetector.beatPhase (updateBeatPhase s now tp) < 1"
proof (cases "lastBeatTime s = 0")
  case True
  then show ?thesis by (simp add: updateBeatPhase_def)
next
  case False
  then have "0 \<le> now - lastBeatTime s" using assms(1) by (simp add: clock_ok_def)
  moreover have "0 < 60000 / tp" using assms(2) by simp
  ultimately show ?thesis
    using False js_rem_phase [of "now - lastBeatTime s" "60000 / tp"]
    by (simp add: updateBeatPhase_def Let_def)
qed

lemma analyze_step_range:
  assumes "tempo_ok (tempoHistory s)" "clock_ok s t0" "t0 \<le> now"
  shows "in_range (fst (analyze s fd td b m t now))"
    and "tempo_ok (tempoHistory (snd (analyze s fd td b m t now)))"
    and "clock_ok (snd (analyze s fd td b m t now)) now"
proof -
  define e where "e = calculateEnergy fd"
  define r where "r = detectBeat (entered s e b m t) e now"
  define c where "c = calculateTempo (snd r) now (fst (fst r))"
  have th: "tempo_ok (tempoHistory (snd r))"
    using assms(1) by (simp add: r_def)
  have tr: "60 \<le> fst c \<and> fst c \<le> 200 \<and> tempo_ok (tempoHistory (snd c))"
    unfolding c_def using th by (rule calculateTempo_range)
  have "lastBeatTime (snd c) = (if fst (fst r) then now else lastBeatTime s)"
    by (simp add: c_def r_def detectBeat_state)
  then have ck: "clock_ok (snd c) now"
    using assms(2,3) by (auto simp add: clock_ok_def)
  have ph: "0 \<le> AdvancedBeatDetector.beatPhase (updateBeatPhase (snd c) now (fst c))
     \<and> AdvancedBeatDetector.beatPhase (updateBeatPhase (snd c) now (fst c)) < 1"
    using ck tr by (simp add: updateBeatPhase_range)
  have cf: "0 \<le> snd (fst r) \<and> snd (fst r) \<le> 1"
    unfolding r_def by (rule detectBeat_confidence)
  show "in_range (fst (analyze s fd td b m t now))"
    using tr ph cf
    by (simp add: analyze_unfold Let_def in_range_def e_def [symmetric] r_def [symmetric]
        c_def [symmetric])
  show "tempo_ok (tempoHistory (snd (analyze s fd td b m t now)))"
    using tr
    by (simp add: analyze_unfold Let_def e_def [symmetric] r_def [symmetric] c_def [symmetric])
  show "clock_ok (snd (analyze s fd td b m t now)) now"
    using ck
    by (simp add: analyze_unfold Let_def clock_ok_def e_def [symmetric] r_def [symmetric]
        c_def [symmetric])
qed

lemma feed_range:
  "tempo_ok (tempoHistory s) \<Longrightarrow> clock_ok s t0 \<Longrightarrow> sorted (t0 # map snd ticks) \<Longrightarrow>
   k < length ticks \<Longrightarrow> in_range (fst (feed s ticks) ! k)"
proof (induction ticks arbitrary: s t0 k)
  case Nil
  then show ?case by simp
next
  case (Cons tick ticks)
  let ?r = "analyzeFrame s (fst tick) (snd tick)"
  have le: "t0 \<le> snd tick" and srt: "sorted (snd tick # map snd ticks)"
    using Cons.prems(3) by simp_all
  have step: "in_range (fst ?r)" "tempo_ok (tempoHistory (snd ?r))" "clock_ok (snd ?r) (snd tick)"
    unfolding analyzeFrame_def
    using analyze_step_range [OF Cons.prems(1,2) le] by simp_all
  show ?case
  proof (cases k)
    case 0
    then show ?thesis using step(1) by (simp add: feed_Cons_fst)
  next
    case (Suc l)
    then have "l < length ticks" using Cons.prems(4) by simp
    then show ?thesis
      using Cons.IH [OF step(2,3) srt] Suc by (simp add: feed_Cons_fst)
  qed
qed






lemma analyze_params:
  "AdvancedBeatDetector.sampleRate (snd (analyze s fd td b m t now)) = AdvancedBeatDetector.sampleRate s"
  "bufferSize (snd (analyze s fd td b m t now)) = bufferSize s"
  "beatInterval (snd (analyze s fd td b m t now)) = beatInterval s"
  by (simp_all add: analyze_unfold Let_def)

lemma feed_params:
  "AdvancedBeatDetector.sampleRate (snd (feed s ticks)) = AdvancedBeatDetector.sampleRate s
   \<and> bufferSize (snd (feed s ticks)) = bufferSize s
   \<and> beatInterval (snd (feed s ticks)) = beatInterval s"
  by (induction ticks arbitrary: s) (simp_all add: feed_Cons_snd analyzeFrame_def analyze_params)

lemma reset_is_new:
  "AdvancedBeatDetector.sampleRate s = sr \<Longrightarrow> bufferSize s = bs \<Longrightarrow> beatInterval s = 0 \<Longrightarrow>
   reset s = new_detector sr bs"
  by (cases s) (simp add: reset_def new_detector_def)

lemma cold_start:
  "fst (analyze (new_detector sr bs) fd td b m t now) =
     \<lparr> isBeat = False, BeatData.confidence = 0, tempo = 120, timeSignature = 4,
       BeatData.beatPhase = 0, intensity = calculateIntensity b m t (calculateEnergy fd) \<rparr>"
  unfolding analyze_unfold Let_def
  by (simp add: new_detector_def entered_def fifo_push_def detectBeat_result detectBeat_state
      calculateTempo_result held_tempo_def updateBeatPhase_def updateRhythmPatterns_def
      estimateTimeSignature_def push_def shift_def Let_def)

lemma feed_pair: "feed s (tick # ticks) =
   (fst (analyzeFrame s (fst tick) (snd tick)) # fst (feed (snd (analyzeFrame s (fst tick) (snd tick))) ticks),
    snd (feed (snd (analyzeFrame s (fst tick) (snd tick))) ticks))"
  by (simp add: feed.simps(2) case_prod_unfold Let_def)

lemma feed_append:
  "feed s (xs @ ys) = (fst (feed s xs) @ fst (feed (snd (feed s xs)) ys), snd (feed (snd (feed s xs)) ys))"
  by (induction xs arbitrary: s) (simp_all add: feed_pair)

lemma warmup: "feed (new_detector 44100 1024) quiet9 =
   ([coldOut, coldOut, coldOut, coldOut, coldOut, coldOut, coldOut, coldOut, coldOut],
    det Z9 [] [] 0 Z9 F9)"
  by (simp add: quiet9_def feed_pair new_det quiet_step)

lemma loud_step1: "analyzeFrame (det Z9 [] [] 0 Z9 F9) loudData 1000 =
    (beatOut 120, det E10 [1000] [] 1000 E10 P10)"
  unfolding analyzeFrame_def loudData_def
  using beat_step [of Z9 Z9 F9 "[]" "[255, 255, 255, 255]" 1 1 1000 0 "[]" "[128, 128, 128, 128]"]
    accept1
  by (simp add: energy_loud ratio1 tempo_step1 held_tempo_def
      beatOut_def calculateIntensity_def)

lemma loud_step2: "analyzeFrame (det E10 [1000] [] 1000 E10 P10) loudData 1450 =
    (beatOut 133, det E11 [1000, 1450] [133] 1450 E11 P11)"
  unfolding analyzeFrame_def loudData_def
  using beat_step [of E10 E10 P10 "[1000]" "[255, 255, 255, 255]" 1 1 1450 1000 "[]" "[128, 128, 128, 128]"]
    accept2
  by (simp add: energy_loud ratio2 tempo_step2
      beatOut_def calculateIntensity_def)

lemma loud_step3: "analyzeFrame (det E11 [1000, 1450] [133] 1450 E11 P11) loudData 1950 =
    (beatOut 132, det E12 [1000, 1450, 1950] [133, 132] 1950 E12 P12)"
  unfolding analyzeFrame_def loudData_def
  using beat_step [of E11 E11 P11 "[1000, 1450]" "[255, 255, 255, 255]" 1 1 1950 1450 "[133]" "[128, 128, 128, 128]"]
    accept3
  by (simp add: energy_loud ratio3 tempo_step3
      beatOut_def calculateIntensity_def)

lemma feed_beats3: "feed (det Z9 [] [] 0 Z9 F9) beats3 =
   ([beatOut 120, beatOut 133, beatOut 132],
    det E12 [1000, 1450, 1950] [133, 132] 1950 E12 P12)"
  by (simp add: beats3_def feed_pair loud_step1 loud_step2 loud_step3)

lemma feed_session: "feed (new_detector 44100 1024) session =
   ([coldOut, coldOut, coldOut, coldOut, coldOut, coldOut, coldOut, coldOut, coldOut,
     beatOut 120, beatOut 133, beatOut 132],
    det E12 [1000, 1450, 1950] [133, 132] 1950 E12 P12)"
  by (simp add: session_def feed_append warmup feed_beats3)


section \<open>Lemmas about the feature extractor and the synthesizer\<close>

lemma foldl_invariant:
  "P a \<Longrightarrow> (\<And>acc x. P acc \<Longrightarrow> x \<in> set xs \<Longrightarrow> P (f acc x)) \<Longrightarrow> P (foldl f a xs)"
  by (induction xs arbitrary: a) simp_all

lemma foldl_keep:
  "(\<And>acc x. x \<in> set xs \<Longrightarrow> f acc x = acc) \<Longrightarrow> foldl f a xs = a"
  by (induction xs arbitrary: a) simp_all

lemma byte_zero [simp]: "byte 0 = 0"
  by (simp add: byte_def)

lemma byte_range: "0 \<le> byte v \<and> byte v \<le> 255"
proof -
  have "unat v < 2 ^ 8" using unsigned_less [of v] by simp
  then have "unat v \<le> 255" by simp
  then have "real (unat v) \<le> real 255" by (rule of_nat_mono)
  moreover have "0 \<le> real (unat v)" by (rule of_nat_0_le_iff)
  moreover have "real 255 = 255" by simp
  ultimately show ?thesis unfolding byte_def by linarith
qed

lemma magnitudeAt_range: "0 \<le> magnitudeAt fd i \<and> magnitudeAt fd i \<le> 1"
  using byte_range [of "fd ! i"] by (simp add: magnitudeAt_def)

lemma magnitudeAt_silent:
  "list_all (\<lambda>v. v = 0) fd \<Longrightarrow> i < length fd \<Longrightarrow> magnitudeAt fd i = 0"
  by (simp add: magnitudeAt_def list_all_length)

lemma energy_silent: "list_all (\<lambda>v. v = 0) fd \<Longrightarrow> calculateEnergy fd = 0"
proof -
  assume z: "list_all (\<lambda>v. v = 0) fd"
  have "foldl (\<lambda>sum v. sum + byte v * byte v) 0 fd = 0"
    by (rule foldl_keep) (use z in \<open>auto simp add: list_all_iff\<close>)
  then show ?thesis by (simp add: calculateEnergy_def)
qed

lemma band_silent:
  assumes "list_all (\<lambda>v. v = 0) fd"
  shows "getFrequencyBandAverage rate fd lo hi = 0"
proof -
  define ixs where "ixs = [nat \<lfloor>lo / (rate / 2) * real (length fd)\<rfloor> ..<
       nat (min \<lfloor>hi / (rate / 2) * real (length fd)\<rfloor> (int (length fd)))]"
  have "fst (foldl (\<lambda>(sum, count) i. (sum + byte (fd ! i), count + (1::nat))) (0, 0) ixs) = 0"
  proof (rule foldl_invariant [where P = "\<lambda>p. fst p = 0"])
    show "fst (0::real, 0::nat) = 0" by simp
  next
    fix acc :: "real \<times> nat" and x
    assume "fst acc = 0" "x \<in> set ixs"
    then have "x < length fd" by (auto simp add: ixs_def)
    then have "byte (fd ! x) = 0" using assms by (simp add: list_all_length)
    then show "fst ((\<lambda>(sum, count) i. (sum + byte (fd ! i), count + (1::nat))) acc x) = 0"
      using \<open>fst acc = 0\<close> by (simp add: case_prod_unfold)
  qed
  then show ?thesis
    unfolding getFrequencyBandAverage_def Let_def ixs_def [symmetric]
    by (simp add: case_prod_unfold)
qed

lemma centroid_silent:
  assumes "list_all (\<lambda>v. v = 0) fd"
  shows "calculateSpectralCentroid a fd = 0"
proof -
  have "foldl (\<lambda>(weightedSum, magnitudeSum) i.
                     (weightedSum + binFrequency a fd i * magnitudeAt fd i,
                      magnitudeSum + magnitudeAt fd i))
              (0, 0) [0 ..< length fd] = (0, 0)"
    by (rule foldl_keep) (use assms in \<open>auto simp add: magnitudeAt_silent\<close>)
  then show ?thesis
    by (simp add: calculateSpectralCentroid_def)
qed

lemma harmonicRatio_silent:
  assumes "list_all (\<lambda>v. v = 0) fd"
  shows "calculateHarmonicRatio a fd = 0"
proof -
  have "foldl (\<lambda>(harmonicEnergy, totalEnergy) i.
                     let magnitude = (magnitudeAt fd i) ^ 2
                     in ((if isLikelyHarmonic (binFrequency a fd i)
                          then harmonicEnergy + magnitude else harmonicEnergy),
                         totalEnergy + magnitude))
              (0, 0) [0 ..< length fd] = (0, 0)"
    by (rule foldl_keep) (use assms in \<open>auto simp add: magnitudeAt_silent\<close>)
  then show ?thesis
    by (simp add: calculateHarmonicRatio_def)
qed

lemma calculateChroma_fold:
  "calculateChroma a fd =
     (let chroma1 = foldl (chromaStep a fd) (replicate 12 0) [1 ..< length fd];
          sum = reduce_sum chroma1
      in if sum > 0 then map (\<lambda>val. val / sum) chroma1 else chroma1)"
  unfolding calculateChroma_def chromaStep_def ..

lemma chromaStep_zero: "magnitudeAt fd i = 0 \<Longrightarrow> chromaStep a fd c i = c"
  by (simp add: chromaStep_def Let_def)

lemma chroma_silent:
  assumes "list_all (\<lambda>v. v = 0) fd"
  shows "calculateChroma a fd = replicate 12 0"
proof -
  have f: "foldl (chromaStep a fd) (replicate 12 0) [1 ..< length fd] = replicate 12 0"
    by (rule foldl_keep) (use assms in \<open>auto simp add: magnitudeAt_silent chromaStep_zero\<close>)
  show ?thesis
    unfolding calculateChroma_fold f by (simp add: Let_def reduce_sum_sum_list)
qed

lemma dotProduct_sum: "dotProduct c p = sum_list (map (\<lambda>i. c ! i * p ! i) [0 ..< length c])"
  using foldl_add_sum [of "\<lambda>i. c ! i * p ! i" 0 "[0 ..< length c]"]
  by (simp add: dotProduct_def)

lemma majorKeyStrength_silent: "getMajorKeyStrength (replicate 12 0) = 0"
proof -
  have "dotProduct (replicate 12 0) majorProfile = 0"
    unfolding dotProduct_def by (rule foldl_keep) simp
  then show ?thesis by (simp add: getMajorKeyStrength_def)
qed

lemma no_accept_zero: "\<not> spec_accept eh bh 0 elapsed"
proof -
  have "0 \<le> sqrt (spec_variance (slice_last 10 eh))"
    by (simp add: spec_variance_nonneg)
  then have "\<not> 13 / 10 + sqrt (spec_variance (slice_last 10 eh)) < 0"
    by linarith
  then show ?thesis
    by (simp add: spec_accept_def spec_energyRatio_def)
qed

lemma analyze_silent:
  assumes "list_all (\<lambda>v. v = 0) fd"
  shows "isBeat (fst (analyze s fd td b m t now)) = False"
    and "BeatData.tempo (fst (analyze s fd td b m t now)) = held_tempo (tempoHistory s)"
    and "tempoHistory (snd (analyze s fd td b m t now)) = tempoHistory s"
proof -
  define s1 where "s1 = entered s 0 b m t"
  have d: "fst (detectBeat s1 0 now) = (False, 0)" "snd (detectBeat s1 0 now) = s1"
    by (simp_all add: detectBeat_result detectBeat_state no_accept_zero)
  have c: "calculateTempo s1 now False = (held_tempo (tempoHistory s), s1)"
    by (simp add: calculateTempo_result s1_def)
  show "isBeat (fst (analyze s fd td b m t now)) = False"
    "BeatData.tempo (fst (analyze s fd td b m t now)) = held_tempo (tempoHistory s)"
    "tempoHistory (snd (analyze s fd td b m t now)) = tempoHistory s"
    by (simp_all add: analyze_unfold Let_def energy_silent [OF assms] s1_def [symmetric] d c)
      (simp_all add: s1_def)
qed

lemma features_silent:
  assumes "list_all (\<lambda>v. v = 0) fd"
  shows "spectralCentroid (fst (analyzeAdvancedFeatures a d b td fd)) = 0"
    and "harmonicRatio (fst (analyzeAdvancedFeatures a d b td fd)) = 0"
    and "chroma (fst (analyzeAdvancedFeatures a d b td fd)) = replicate 12 0"
  by (simp_all add: analyzeAdvancedFeatures_def Let_def centroid_silent [OF assms]
      harmonicRatio_silent [OF assms] chroma_silent [OF assms])

lemma valence_silent:
  "spectralCentroid f = 0 \<Longrightarrow> harmonicRatio f = 0 \<Longrightarrow> chroma f = replicate 12 0 \<Longrightarrow>
   calculateValence f d = 0"
  by (simp add: calculateValence_def Let_def majorKeyStrength_silent)

lemma animate_silent:
  assumes "silentFrame rate d"
  shows "isBeat (fst (fst (animate (s, a) d now))) = False"
    and "BeatData.tempo (fst (fst (animate (s, a) d now))) = held_tempo (tempoHistory s)"
    and "energy (snd (fst (animate (s, a) d now))) = 0"
    and "mood (snd (fst (animate (s, a) d now))) = Dark"
    and "tempoHistory (fst (snd (animate (s, a) d now))) = tempoHistory s"
proof -
  have z: "list_all (\<lambda>v. v = 0) (frequencyData d)"
    and bands: "bass d = 0" "mid d = 0" "treble d = 0"
    using assms by (simp_all add: silentFrame_def band_silent)
  define out where "out = fst (analyzeFrame s d now)"
  define f where "f = fst (analyzeAdvancedFeatures a d out (timeData d) (frequencyData d))"
  have v: "calculateValence f d = 0"
    unfolding f_def using features_silent [OF z] by (intro valence_silent)
  have m: "detectMood f d = Dark"
    by (simp add: detectMood_def Let_def bands v)
  show "isBeat (fst (fst (animate (s, a) d now))) = False"
    "BeatData.tempo (fst (fst (animate (s, a) d now))) = held_tempo (tempoHistory s)"
    "tempoHistory (fst (snd (animate (s, a) d now))) = tempoHistory s"
    using analyze_silent [OF z]
    by (simp_all add: animate_def case_prod_unfold Let_def analyzeFrame_def)
  show "energy (snd (fst (animate (s, a) d now))) = 0"
    by (simp add: animate_def case_prod_unfold Let_def generateMusicCharacteristics_def bands)
  show "mood (snd (fst (animate (s, a) d now))) = Dark"
    using m
    by (simp add: animate_def case_prod_unfold Let_def generateMusicCharacteristics_def
        out_def f_def)
qed

lemma playback_silent:
  "list_all (\<lambda>tick. silentFrame rate (fst tick)) ticks \<Longrightarrow>
   list_all (quietly (held_tempo (tempoHistory (fst st)))) (playback st ticks)"
proof (induction ticks arbitrary: st)
  case Nil
  then show ?case by simp
next
  case (Cons tick ticks)
  obtain s a where st: "st = (s, a)" by (cases st)
  have sil: "silentFrame rate (fst tick)" and rest: "list_all (\<lambda>tick. silentFrame rate (fst tick)) ticks"
    using Cons.prems by simp_all
  note step = animate_silent [OF sil, of s a "snd tick"]
  have "quietly (held_tempo (tempoHistory s)) (fst (animate (s, a) (fst tick) (snd tick)))"
    using step by (simp add: quietly_def)
  moreover have "list_all (quietly (held_tempo (tempoHistory s)))
      (playback (snd (animate (s, a) (fst tick) (snd tick))) ticks)"
    using Cons.IH [OF rest, of "snd (animate (s, a) (fst tick) (snd tick))"] step(5) by simp
  ultimately show ?case
    by (simp add: st case_prod_unfold Let_def)
qed

lemma binFrequency_nonneg: "0 \<le> AdvancedAudioAnalyzer.sampleRate a \<Longrightarrow> 0 \<le> binFrequency a fd i"
  by (simp add: binFrequency_def)

lemma centroid_nonneg:
  assumes "0 \<le> AdvancedAudioAnalyzer.sampleRate a"
  shows "0 \<le> calculateSpectralCentroid a fd"
proof -
  define r where "r = foldl (\<lambda>(weightedSum, magnitudeSum) i.
                     (weightedSum + binFrequency a fd i * magnitudeAt fd i,
                      magnitudeSum + magnitudeAt fd i))
              (0, 0) [0 ..< length fd]"
  have "0 \<le> fst r \<and> 0 \<le> snd r"
    unfolding r_def
  proof (rule foldl_invariant [where P = "\<lambda>p. 0 \<le> fst p \<and> 0 \<le> snd p"])
    show "0 \<le> fst (0::real, 0::real) \<and> 0 \<le> snd (0::real, 0::real)" by simp
  next
    fix acc :: "real \<times> real" and x
    assume "0 \<le> fst acc \<and> 0 \<le> snd acc"
    then show "0 \<le> fst ((\<lambda>(weightedSum, magnitudeSum) i.
                     (weightedSum + binFrequency a fd i * magnitudeAt fd i,
                      magnitudeSum + magnitudeAt fd i)) acc x)
        \<and> 0 \<le> snd ((\<lambda>(weightedSum, magnitudeSum) i.
                     (weightedSum + binFrequency a fd i * magnitudeAt fd i,
                      magnitudeSum + magnitudeAt fd i)) acc x)"
      using binFrequency_nonneg [OF assms, of fd x] magnitudeAt_range [of fd x]
      by (simp add: case_prod_unfold)
  qed
  then show ?thesis
    unfolding calculateSpectralCentroid_def r_def [symmetric]
    by (simp add: case_prod_unfold)
qed

lemma harmonicRatio_nonneg: "0 \<le> calculateHarmonicRatio a fd"
proof -
  define r where "r = foldl (\<lambda>(harmonicEnergy, totalEnergy) i.
                     let magnitude = (magnitudeAt fd i) ^ 2
                     in ((if isLikelyHarmonic (binFrequency a fd i)
                          then harmonicEnergy + magnitude else harmonicEnergy),
                         totalEnergy + magnitude))
              (0, 0) [0 ..< length fd]"
  have "0 \<le> fst r \<and> 0 \<le> snd r"
    unfolding r_def
    by (rule foldl_invariant [where P = "\<lambda>p. 0 \<le> fst p \<and> 0 \<le> snd p"])
      (simp_all add: case_prod_unfold Let_def)
  then show ?thesis
    unfolding calculateHarmonicRatio_def r_def [symmetric]
    by (simp add: case_prod_unfold)
qed

lemma chromaStep_keeps:
  assumes "length c = 12 \<and> list_all (\<lambda>x. 0 \<le> x) c"
  shows "length (chromaStep a fd c i) = 12 \<and> list_all (\<lambda>x. 0 \<le> x) (chromaStep a fd c i)"
proof -
  have "list_all (\<lambda>x. 0 \<le> x) (c[k := c ! k + magnitudeAt fd i])" for k
  proof (cases "k < length c")
    case True
    then have "0 \<le> c ! k" using assms by (simp add: list_all_length)
    then have "0 \<le> c ! k + magnitudeAt fd i"
      using magnitudeAt_range [of fd i] by simp
    then show ?thesis
      using assms by (auto simp add: list_all_iff dest!: set_update_subset_insert [THEN subsetD])
  next
    case False
    then show ?thesis using assms by (simp add: list_update_beyond)
  qed
  then show ?thesis
    using assms by (simp add: chromaStep_def Let_def)
qed

lemma chroma_shape:
  "length (calculateChroma a fd) = 12 \<and> list_all (\<lambda>x. 0 \<le> x) (calculateChroma a fd)"
proof -
  define c where "c = foldl (chromaStep a fd) (replicate 12 0) [1 ..< length fd]"
  have c: "length c = 12 \<and> list_all (\<lambda>x. 0 \<le> x) c"
    unfolding c_def
  proof (rule foldl_invariant [where P = "\<lambda>c. length c = 12 \<and> list_all (\<lambda>x. 0 \<le> x) c"])
    show "length (replicate 12 (0::real)) = 12 \<and> list_all (\<lambda>x. 0 \<le> x) (replicate 12 (0::real))"
      by (simp add: list_all_iff)
  next
    fix acc :: "real list" and x
    assume "length acc = 12 \<and> list_all (\<lambda>x. 0 \<le> x) acc"
    then show "length (chromaStep a fd acc x) = 12 \<and> list_all (\<lambda>x. 0 \<le> x) (chromaStep a fd acc x)"
      by (rule chromaStep_keeps)
  qed
  then have "list_all (\<lambda>x. 0 \<le> x) (map (\<lambda>val. val / reduce_sum c) c)" if "0 < reduce_sum c"
    using that by (simp add: list_all_iff)
  then show ?thesis
    using c unfolding calculateChroma_fold c_def [symmetric] Let_def by simp
qed

lemma majorKeyStrength_nonneg:
  assumes "length c = 12" "list_all (\<lambda>x. 0 \<le> x) c"
  shows "0 \<le> getMajorKeyStrength c"
proof -
  have p: "list_all (\<lambda>x. 0 \<le> x) majorProfile" "length majorProfile = 12"
    by (simp_all add: majorProfile_def)
  have "0 \<le> c ! i * majorProfile ! i" if "i < 12" for i
    using that assms p by (simp add: list_all_length)
  then have "0 \<le> dotProduct c majorProfile"
    unfolding dotProduct_sum by (intro sum_list_nonneg) (auto simp add: assms(1))
  moreover have "reduce_sum majorProfile = 7"
    by (simp add: reduce_sum_def majorProfile_def)
  ultimately show ?thesis
    by (simp add: getMajorKeyStrength_def)
qed

lemma new_analyzer_fields [simp]:
  "analysisHistory new_analyzer = []"
  "AdvancedAudioAnalyzer.sampleRate new_analyzer = 44100"
  by (simp_all add: new_analyzer_def)

lemma upt16: "[0..<16] = [0, 1, 2, 3, 4, 5, 6, 7, 8, 9, 10, 11, 12, 13, 14, 15]"
  by (simp add: upt_rec)

lemma high_not_harmonic:
  assumes "6282 \<le> f"
  shows "\<not> isLikelyHarmonic f"
proof -
  have "\<not> \<bar>f - x * real h\<bar> < 10" if "x \<le> 784" "0 \<le> x" "h < 9" for x h
  proof -
    have "real h \<le> 8" using that(3) by simp
    then have "x * real h \<le> 784 * 8"
      using that(1,2) by (intro mult_mono) simp_all
    then show ?thesis using assms by simp
  qed
  then show ?thesis
    by (auto simp add: isLikelyHarmonic_def list_ex_iff)
qed

lemma bright_bins:
  "magnitudeAt bright16 13 = 1" "magnitudeAt bright16 14 = 1" "magnitudeAt bright16 15 = 1"
  "i < 13 \<Longrightarrow> magnitudeAt bright16 i = 0"
proof -
  show "magnitudeAt bright16 13 = 1" "magnitudeAt bright16 14 = 1" "magnitudeAt bright16 15 = 1"
    by (simp_all add: magnitudeAt_def bright16_def byte_def nth_append)
  show "i < 13 \<Longrightarrow> magnitudeAt bright16 i = 0"
    by (simp add: magnitudeAt_def bright16_def nth_append)
qed

lemma length_bright16: "length bright16 = 16"
  by (simp add: bright16_def)

lemma centroid_bright: "calculateSpectralCentroid new_analyzer bright16 = 77175 / 4"
proof -
  have "foldl (\<lambda>(weightedSum, magnitudeSum) i.
                     (weightedSum + binFrequency new_analyzer bright16 i * magnitudeAt bright16 i,
                      magnitudeSum + magnitudeAt bright16 i))
              (0, 0) [0 ..< length bright16] = (231525 / 4, 3)"
    by (simp add: length_bright16 upt16 bright_bins binFrequency_def)
  then show ?thesis
    by (simp add: calculateSpectralCentroid_def)
qed

lemma bright_not_harmonic:
  "\<not> isLikelyHarmonic (binFrequency new_analyzer bright16 13)"
  "\<not> isLikelyHarmonic (binFrequency new_analyzer bright16 14)"
  "\<not> isLikelyHarmonic (binFrequency new_analyzer bright16 15)"
  by (rule high_not_harmonic, simp add: binFrequency_def length_bright16)+

lemma harmonic_bright: "calculateHarmonicRatio new_analyzer bright16 = 0"
proof -
  have "foldl (\<lambda>(harmonicEnergy, totalEnergy) i.
                     let magnitude = (magnitudeAt bright16 i) ^ 2
                     in ((if isLikelyHarmonic (binFrequency new_analyzer bright16 i)
                          then harmonicEnergy + magnitude else harmonicEnergy),
                         totalEnergy + magnitude))
              (0, 0) [0 ..< length bright16] = (0, 3)"
    by (simp add: length_bright16 upt16 bright_bins bright_not_harmonic Let_def)
  then show ?thesis
    by (simp add: calculateHarmonicRatio_def)
qed

lemma bright_bands:
  "getFrequencyBandAverage 44100 bright16 0 60 = 0"
  "getFrequencyBandAverage 44100 bright16 60 250 = 0"
  "getFrequencyBandAverage 44100 bright16 250 500 = 0"
  by (simp_all add: getFrequencyBandAverage_def length_bright16)

lemma acousticness_bright:
  "acousticness (snd (fst (animate (new_detector 44100 1024, new_analyzer) brightData 100)))
     = - 3774 / 4000"
proof -
  define out where "out = fst (analyzeFrame (new_detector 44100 1024) brightData 100)"
  define f where "f = fst (analyzeAdvancedFeatures new_analyzer brightData out
      (timeData brightData) (frequencyData brightData))"
  have f: "spectralCentroid f = 77175 / 4" "harmonicRatio f = 0" "spectralFlux f = 0"
    by (simp_all add: f_def analyzeAdvancedFeatures_def Let_def brightData_def centroid_bright
        harmonic_bright calculateSpectralFlux_def)
  have "calculateAcousticness f = - 3774 / 4000"
    by (simp add: calculateAcousticness_def Let_def f)
  then show ?thesis
    by (simp add: animate_def case_prod_unfold Let_def generateMusicCharacteristics_def
        out_def f_def)
qed

lemma flux_first: "analysisHistory a = [] \<Longrightarrow> calculateSpectralFlux a fd = 0"
  by (simp add: calculateSpectralFlux_def)

lemma flux_later:
  "analysisHistory a \<noteq> [] \<Longrightarrow>
   calculateSpectralFlux a fd
     = claimed_flux (mfcc (last (analysisHistory a))) fd / real (min (length fd) 128)"
  unfolding calculateSpectralFlux_def Let_def claimed_flux_def baseline_def
  by (simp add: foldl_add_sum)

lemma history_after:
  "analysisHistory (snd (analyzeAdvancedFeatures a d b td fd)) \<noteq> []"
  "last (analysisHistory (snd (analyzeAdvancedFeatures a d b td fd)))
     = fst (analyzeAdvancedFeatures a d b td fd)"
proof -
  define f where "f = fst (analyzeAdvancedFeatures a d b td fd)"
  have h: "analysisHistory (snd (analyzeAdvancedFeatures a d b td fd))
      = (if length (analysisHistory a @ [f]) > 1000 then tl (analysisHistory a @ [f])
         else analysisHistory a @ [f])"
    by (simp add: analyzeAdvancedFeatures_def Let_def push_def shift_def f_def)
  show "analysisHistory (snd (analyzeAdvancedFeatures a d b td fd)) \<noteq> []"
    unfolding h by (cases "analysisHistory a") simp_all
  show "last (analysisHistory (snd (analyzeAdvancedFeatures a d b td fd)))
     = fst (analyzeAdvancedFeatures a d b td fd)"
    unfolding h f_def [symmetric] by (cases "analysisHistory a") simp_all
qed

lemma features_flux:
  "spectralFlux (fst (analyzeAdvancedFeatures a d b td fd)) = calculateSpectralFlux a fd"
  "mfcc (fst (analyzeAdvancedFeatures a d b td fd)) = calculateMFCC a fd"
  by (simp_all add: analyzeAdvancedFeatures_def Let_def)

lemma length_mfcc: "length (calculateMFCC a fd) = 13"
  by (simp add: calculateMFCC_def Let_def)

lemma claimed_flux_bright:
  assumes "length m = 13"
  shows "3 \<le> claimed_flux m bright16"
proof -
  define g where "g = (\<lambda>i. max 0 (magnitudeAt bright16 i - baseline m i))"
  have split: "[0..<16] = [0..<13] @ [13, 14, 15]"
    by (simp add: upt16 upt_rec)
  have "0 \<le> sum_list (map g [0..<13])"
    by (intro sum_list_nonneg) (auto simp add: g_def)
  moreover have "g 13 = 1" "g 14 = 1" "g 15 = 1"
    by (simp_all add: g_def baseline_def assms bright_bins)
  ultimately show ?thesis
    by (simp add: claimed_flux_def length_bright16 g_def [symmetric] split)
qed

lemma round_log2:
  assumes "0 < x" "2 ^ (2 * k) \<le> 2 * x ^ 24" "x ^ 24 < 2 * 2 ^ (2 * k)"
  shows "\<lfloor>12 * log 2 x + 1 / 2\<rfloor> = int k"
proof -
  have l: "log 2 (x ^ 24) = 24 * log 2 x"
    using assms(1) by (simp add: log_nat_power)
  have "log 2 (2 ^ (2 * k)) \<le> log 2 (2 * x ^ 24)"
    using assms(1,2) by (subst log_le_cancel_iff) simp_all
  then have lo: "2 * real k \<le> 1 + 24 * log 2 x"
    using assms(1) l by (simp add: log_mult log_nat_power)
  have "log 2 (x ^ 24) < log 2 (2 * 2 ^ (2 * k))"
    using assms(1,3) by (subst log_less_cancel_iff) simp_all
  then have hi: "24 * log 2 x < 1 + 2 * real k"
    using l by (simp add: log_mult log_nat_power)
  have "of_int (int k) \<le> 12 * log 2 x + 1 / 2" "12 * log 2 x + 1 / 2 < of_int (int k) + 1"
    using lo hi by simp_all
  then show ?thesis
    by (subst floor_unique) simp_all
qed

lemma pitch_440: "pitchClassOf 440 = 0"
  using round_log2 [of 1 0] by (simp add: pitchClassOf_def js_irem_def)

lemma pitch_880: "pitchClassOf 880 = 0"
  using round_log2 [of 2 12] by (simp add: pitchClassOf_def js_irem_def)

lemma pitch_1320: "pitchClassOf 1320 = 7"
  using round_log2 [of 3 19] by (simp add: pitchClassOf_def js_irem_def)

lemma chroma_segment:
  assumes "\<And>i. l \<le> i \<Longrightarrow> i < u \<Longrightarrow> magnitudeAt fd i = 0"
  shows "foldl (chromaStep a fd) c [l ..< u] = c"
  by (rule foldl_keep) (simp add: chromaStep_zero assms)

lemma replicate12: "replicate 12 (0::real) = [0, 0, 0, 0, 0, 0, 0, 0, 0, 0, 0, 0]"
  by (simp add: numeral_eq_Suc)

lemma upt12: "[0..<12] = [0, 1, 2, 3, 4, 5, 6, 7, 8, 9, 10, 11]"
  by (simp add: upt_rec)

lemma dotProduct12:
  "dotProduct [c0, c1, c2, c3, c4, c5, c6, c7, c8, c9, c10, c11]
              [p0, p1, p2, p3, p4, p5, p6, p7, p8, p9, p10, p11]
   = c0 * p0 + c1 * p1 + c2 * p2 + c3 * p3 + c4 * p4 + c5 * p5 + c6 * p6 + c7 * p7
     + c8 * p8 + c9 * p9 + c10 * p10 + c11 * p11"
  by (simp add: dotProduct_def upt12)

lemma detectKey_major_support:
  assumes "0 \<le> c0" "0 \<le> c2" "0 \<le> c4" "0 \<le> c5" "0 \<le> c7" "0 \<le> c9" "0 \<le> c11"
  shows "detectKey [c0, 0, c2, 0, c4, c5, 0, c7, 0, c9, 0, c11] = ''C''"
  using assms
  by (simp add: detectKey_def upt12 majorProfile_def dotProduct12 keys_def Let_def)

lemma length_playback [simp]: "length (playback st ticks) = length ticks"
  by (induction ticks arbitrary: st) (simp_all add: case_prod_unfold Let_def)

lemma quiet16_zero: "list_all (\<lambda>v. v = 0) quiet16"
  by (simp add: quiet16_def list_all_iff)

lemma silentData_silent: "silentFrame 44100 silentData"
  by (simp add: silentFrame_def silentData_def quiet16_zero band_silent [OF quiet16_zero]
      list_all_iff) (simp add: quiet16_def)

lemma silence100_silent: "list_all (\<lambda>tick. silentFrame 44100 (fst tick)) silence100"
  by (simp add: silence100_def list_all_iff silentData_silent)

lemma length_silence100 [simp]: "length silence100 = 100"
  by (simp add: silence100_def)

lemma length_a_major [simp]: "length a_major_frame = 2205"
  by (simp add: a_major_frame_def)

lemma a_major_bins:
  "i < 2205 \<Longrightarrow>
   magnitudeAt a_major_frame i
     = (if i = 44 \<or> i = 49 \<or> i = 55 \<or> i = 59 \<or> i = 66 \<or> i = 74 \<or> i = 83 \<or> i = 88 \<or> i = 132
        then 1 else 0)"
  by (simp add: magnitudeAt_def a_major_frame_def byte_def)

lemma a_major_frequency: "binFrequency new_analyzer a_major_frame i = 10 * real i"
  by (simp add: binFrequency_def)

lemma pitch_490: "pitchClassOf 490 = 2"
proof -
  have "\<lfloor>12 * log 2 (49 / 44 :: real) + 1 / 2\<rfloor> = int 2"
    by (rule round_log2) (simp_all add: power_divide)
  then show ?thesis
    by (simp add: pitchClassOf_def js_irem_def Let_def)
qed

lemma pitch_550: "pitchClassOf 550 = 4"
proof -
  have "\<lfloor>12 * log 2 (5 / 4 :: real) + 1 / 2\<rfloor> = int 4"
    by (rule round_log2) (simp_all add: power_divide)
  then show ?thesis
    by (simp add: pitchClassOf_def js_irem_def Let_def)
qed

lemma pitch_590: "pitchClassOf 590 = 5"
proof -
  have "\<lfloor>12 * log 2 (59 / 44 :: real) + 1 / 2\<rfloor> = int 5"
    by (rule round_log2) (simp_all add: power_divide)
  then show ?thesis
    by (simp add: pitchClassOf_def js_irem_def Let_def)
qed

lemma pitch_660: "pitchClassOf 660 = 7"
proof -
  have "\<lfloor>12 * log 2 (3 / 2 :: real) + 1 / 2\<rfloor> = int 7"
    by (rule round_log2) (simp_all add: power_divide)
  then show ?thesis
    by (simp add: pitchClassOf_def js_irem_def Let_def)
qed

lemma pitch_740: "pitchClassOf 740 = 9"
proof -
  have "\<lfloor>12 * log 2 (37 / 22 :: real) + 1 / 2\<rfloor> = int 9"
    by (rule round_log2) (simp_all add: power_divide)
  then show ?thesis
    by (simp add: pitchClassOf_def js_irem_def Let_def)
qed

lemma pitch_830: "pitchClassOf 830 = 11"
proof -
  have "\<lfloor>12 * log 2 (83 / 44 :: real) + 1 / 2\<rfloor> = int 11"
    by (rule round_log2) (simp_all add: power_divide)
  then show ?thesis
    by (simp add: pitchClassOf_def js_irem_def Let_def)
qed

lemma a_major_indices:
  "[1 ..< 2205] = [1 ..< 44] @ 44 # [45 ..< 49] @ 49 # [50 ..< 55] @ 55 # [56 ..< 59] @ 59 # [60 ..< 66] @ 66 # [67 ..< 74] @ 74 # [75 ..< 83] @ 83 # [84 ..< 88] @ 88 # [89 ..< 132] @ 132 # [133 ..< 2205]"
proof -
  have n: "(44::nat) + 2161 = 2205"
    "Suc 44 = 45"
    "(49::nat) + 2156 = 2205"
    "Suc 49 = 50"
    "(55::nat) + 2150 = 2205"
    "Suc 55 = 56"
    "(59::nat) + 2146 = 2205"
    "Suc 59 = 60"
    "(66::nat) + 2139 = 2205"
    "Suc 66 = 67"
    "(74::nat) + 2131 = 2205"
    "Suc 74 = 75"
    "(83::nat) + 2122 = 2205"
    "Suc 83 = 84"
    "(88::nat) + 2117 = 2205"
    "Suc 88 = 89"
    "(132::nat) + 2073 = 2205"
    "Suc 132 = 133"
    by simp_all
  have s0: "[1 ..< 2205] = [1 ..< 44] @ [44 ..< 2205]"
    by (rule upt_add_eq_append [of 1 44 2161, unfolded n]) simp
  have c0: "[44 ..< 2205] = 44 # [45 ..< 2205]"
    by (rule upt_conv_Cons [of 44 2205, unfolded n]) simp
  have s1: "[45 ..< 2205] = [45 ..< 49] @ [49 ..< 2205]"
    by (rule upt_add_eq_append [of 45 49 2156, unfolded n]) simp
  have c1: "[49 ..< 2205] = 49 # [50 ..< 2205]"
    by (rule upt_conv_Cons [of 49 2205, unfolded n]) simp
  have s2: "[50 ..< 2205] = [50 ..< 55] @ [55 ..< 2205]"
    by (rule upt_add_eq_append [of 50 55 2150, unfolded n]) simp
  have c2: "[55 ..< 2205] = 55 # [56 ..< 2205]"
    by (rule upt_conv_Cons [of 55 2205, unfolded n]) simp
  have s3: "[56 ..< 2205] = [56 ..< 59] @ [59 ..< 2205]"
    by (rule upt_add_eq_append [of 56 59 2146, unfolded n]) simp
  have c3: "[59 ..< 2205] = 59 # [60 ..< 2205]"
    by (rule upt_conv_Cons [of 59 2205, unfolded n]) simp
  have s4: "[60 ..< 2205] = [60 ..< 66] @ [66 ..< 2205]"
    by (rule upt_add_eq_append [of 60 66 2139, unfolded n]) simp
  have c4: "[66 ..< 2205] = 66 # [67 ..< 2205]"
    by (rule upt_conv_Cons [of 66 2205, unfolded n]) simp
  have s5: "[67 ..< 2205] = [67 ..< 74] @ [74 ..< 2205]"
    by (rule upt_add_eq_append [of 67 74 2131, unfolded n]) simp
  have c5: "[74 ..< 2205] = 74 # [75 ..< 2205]"
    by (rule upt_conv_Cons [of 74 2205, unfolded n]) simp
  have s6: "[75 ..< 2205] = [75 ..< 83] @ [83 ..< 2205]"
    by (rule upt_add_eq_append [of 75 83 2122, unfolded n]) simp
  have c6: "[83 ..< 2205] = 83 # [84 ..< 2205]"
    by (rule upt_conv_Cons [of 83 2205, unfolded n]) simp
  have s7: "[84 ..< 2205] = [84 ..< 88] @ [88 ..< 2205]"
    by (rule upt_add_eq_append [of 84 88 2117, unfolded n]) simp
  have c7: "[88 ..< 2205] = 88 # [89 ..< 2205]"
    by (rule upt_conv_Cons [of 88 2205, unfolded n]) simp
  have s8: "[89 ..< 2205] = [89 ..< 132] @ [132 ..< 2205]"
    by (rule upt_add_eq_append [of 89 132 2073, unfolded n]) simp
  have c8: "[132 ..< 2205] = 132 # [133 ..< 2205]"
    by (rule upt_conv_Cons [of 132 2205, unfolded n]) simp
  show ?thesis
    unfolding s0 c0 s1 c1 s2 c2 s3 c3 s4 c4 s5 c5 s6 c6 s7 c7 s8 c8 ..
qed

lemma a_major_steps:
  "chromaStep new_analyzer a_major_frame c 44 = c[0 := c ! 0 + 1]"
  "chromaStep new_analyzer a_major_frame c 49 = c[2 := c ! 2 + 1]"
  "chromaStep new_analyzer a_major_frame c 55 = c[4 := c ! 4 + 1]"
  "chromaStep new_analyzer a_major_frame c 59 = c[5 := c ! 5 + 1]"
  "chromaStep new_analyzer a_major_frame c 66 = c[7 := c ! 7 + 1]"
  "chromaStep new_analyzer a_major_frame c 74 = c[9 := c ! 9 + 1]"
  "chromaStep new_analyzer a_major_frame c 83 = c[11 := c ! 11 + 1]"
  "chromaStep new_analyzer a_major_frame c 88 = c[0 := c ! 0 + 1]"
  "chromaStep new_analyzer a_major_frame c 132 = c[7 := c ! 7 + 1]"
  by (simp_all add: chromaStep_def Let_def a_major_frequency a_major_bins
      pitch_440 pitch_490 pitch_550 pitch_590 pitch_660 pitch_740 pitch_830 pitch_880 pitch_1320)

lemma chroma_a_major:
  "calculateChroma new_analyzer a_major_frame
     = [2 / 9, 0, 1 / 9, 0, 1 / 9, 1 / 9, 0, 2 / 9, 0, 1 / 9, 0, 1 / 9]"
proof -
  have "foldl (chromaStep new_analyzer a_major_frame) (replicate 12 0) [1 ..< 2205]
      = [2, 0, 1, 0, 1, 1, 0, 2, 0, 1, 0, 1]"
  proof -
    have z:
      "foldl (chromaStep new_analyzer a_major_frame) c [1 ..< 44] = c"
      "foldl (chromaStep new_analyzer a_major_frame) c [45 ..< 49] = c"
      "foldl (chromaStep new_analyzer a_major_frame) c [50 ..< 55] = c"
      "foldl (chromaStep new_analyzer a_major_frame) c [56 ..< 59] = c"
      "foldl (chromaStep new_analyzer a_major_frame) c [60 ..< 66] = c"
      "foldl (chromaStep new_analyzer a_major_frame) c [67 ..< 74] = c"
      "foldl (chromaStep new_analyzer a_major_frame) c [75 ..< 83] = c"
      "foldl (chromaStep new_analyzer a_major_frame) c [84 ..< 88] = c"
      "foldl (chromaStep new_analyzer a_major_frame) c [89 ..< 132] = c"
      "foldl (chromaStep new_analyzer a_major_frame) c [133 ..< 2205] = c" for c
      by (rule chroma_segment, simp add: a_major_bins)+
    show ?thesis
      unfolding a_major_indices foldl_append foldl_Cons z a_major_steps replicate12 by simp
  qed
  then show ?thesis
    by (simp add: calculateChroma_fold Let_def reduce_sum_def)
qed

lemma detectKey_a_major:
  "detectKey [2 / 9, 0, 1 / 9, 0, 1 / 9, 1 / 9, 0, 2 / 9, 0, 1 / 9, 0, 1 / 9] = ''C''"
  by (rule detectKey_major_support) simp_all

lemma ln_tiny: "ln (1 / 10 ^ 10 :: real) \<le> - 20"
proof -
  have "exp (20::real) = exp 1 ^ 20"
    by (simp add: exp_of_nat_mult [symmetric])
  also have "\<dots> \<le> 3 ^ 20"
    by (rule power_mono) (simp_all add: exp_le)
  also have "\<dots> \<le> 10 ^ 10" by simp
  finally have "exp (20::real) \<le> 10 ^ 10" .
  then have "20 \<le> ln (10 ^ 10 :: real)"
    by (simp add: ln_ge_iff)
  moreover have "ln (1 / 10 ^ 10 :: real) = - ln (10 ^ 10)"
    by (simp add: ln_div)
  ultimately show ?thesis by simp
qed

lemma mfcc_silent:
  assumes "list_all (\<lambda>v. v = 0) fd"
  shows "calculateMFCC a fd = replicate 13 (ln (1 / 10 ^ 10))"
proof -
  have c: "foldl (\<lambda>c j. c + magnitudeAt fd j * (fs ! i ! j)) 0 [0 ..< length fd] = 0" for fs i
    by (rule foldl_keep) (simp add: magnitudeAt_silent [OF assms])
  have "calculateMFCC a fd = map (\<lambda>i. ln (1 / 10 ^ 10)) [0 ..< 13]"
    by (simp add: calculateMFCC_def Let_def c)
  then show ?thesis by (simp add: map_replicate_const)
qed


lemma analyze_silent_confidence:
  assumes "list_all (\<lambda>v. v = 0) fd"
  shows "BeatData.confidence (fst (analyze s fd td b m t now)) = 0"
proof -
  define s1 where "s1 = entered s 0 b m t"
  have d: "fst (detectBeat s1 0 now) = (False, 0)" "snd (detectBeat s1 0 now) = s1"
    by (simp_all add: detectBeat_result detectBeat_state no_accept_zero)
  show ?thesis
    by (simp add: analyze_unfold Let_def energy_silent [OF assms] s1_def [symmetric] d)
qed

lemma percussive_silent:
  assumes "list_all (\<lambda>v. v = 0) fd"
  shows "calculatePercussiveRatio a fd b
     = calculateSpectralFlux a fd * (4 / 10) + js_or (BeatData.confidence b) 0 * (4 / 10)"
proof -
  have "foldl (\<lambda>e i. e + (magnitudeAt fd i) ^ 2) 0 [k ..< length fd] = 0" for k
    by (rule foldl_keep) (simp add: magnitudeAt_silent [OF assms])
  then show ?thesis
    by (simp add: calculatePercussiveRatio_def Let_def)
qed

lemma flux_silent_again:
  assumes "analysisHistory a \<noteq> []" "mfcc (last (analysisHistory a)) = replicate 13 c" "c \<le> 0"
  shows "calculateSpectralFlux a quiet16 = 13 * (- c) / 16"
proof -
  have m: "magnitudeAt quiet16 i = 0" if "i < 16" for i
    using that by (simp add: magnitudeAt_def quiet16_def)
  have "claimed_flux (replicate 13 c) quiet16 = 13 * (- c)"
    using assms(3)
    by (simp add: claimed_flux_def baseline_def quiet16_def upt16 m magnitudeAt_def)
  then show ?thesis
    by (simp add: flux_later [OF assms(1)] assms(2) quiet16_def)
qed

lemma danceability_silent:
  "danceability (snd (fst (animate
       (snd (animate (new_detector 44100 1024, new_analyzer) silentData 0)) silentData 16)))
   < 0"
proof -
  define st1 where "st1 = snd (animate (new_detector 44100 1024, new_analyzer) silentData 0)"
  define out0 where "out0 = fst (analyzeFrame (new_detector 44100 1024) silentData 0)"
  define a1 where "a1 = snd (analyzeAdvancedFeatures new_analyzer silentData out0
      (replicate 16 0) quiet16)"
  define out1 where "out1 = fst (analyzeFrame (fst st1) silentData 16)"
  define f1 where "f1 = fst (analyzeAdvancedFeatures a1 silentData out1 (replicate 16 0) quiet16)"
  define c :: real where "c = ln (1 / 10 ^ 10)"
  have c: "c \<le> - 20" unfolding c_def by (rule ln_tiny)
  have a1: "snd st1 = a1"
    by (simp add: st1_def animate_def case_prod_unfold Let_def a1_def out0_def silentData_def)
  have h: "analysisHistory a1 \<noteq> []" "mfcc (last (analysisHistory a1)) = replicate 13 c"
    unfolding a1_def c_def
    by (simp_all add: history_after features_flux(2) mfcc_silent [OF quiet16_zero])
  have flux: "calculateSpectralFlux a1 quiet16 = 13 * (- c) / 16"
    using h c by (intro flux_silent_again) simp_all
  have conf: "BeatData.confidence out1 = 0"
    unfolding out1_def analyzeFrame_def
    by (rule analyze_silent_confidence) (simp add: silentData_def quiet16_zero)
  have f1: "spectralFlux f1 = 13 * (- c) / 16" "percussiveRatio f1 = 13 * (- c) / 16 * (4 / 10)"
    by (simp_all add: f1_def analyzeAdvancedFeatures_def Let_def flux
        percussive_silent [OF quiet16_zero] conf js_or_def)
  have "1 / 4 - 39 * c / 400 + (1 + 13 * c / 16) / 5 = 9 / 20 + 13 / 200 * c"
    by (simp add: field_simps)
  then have "1 / 4 - 39 * c / 400 + (1 + 13 * c / 16) / 5 < 0"
    using c by linarith
  then have "calculateDanceability out1 f1 < 0"
    by (simp add: calculateDanceability_def Let_def f1 conf js_or_def min_less_iff_disj)
  moreover have "danceability (snd (fst (animate st1 silentData 16)))
      = calculateDanceability out1 f1"
    by (simp add: animate_def case_prod_unfold Let_def generateMusicCharacteristics_def
        out1_def f1_def a1 silentData_def)
  ultimately show ?thesis
    by (simp add: st1_def)
qed

lemma foldl_update_nth:
  "k < length xs \<Longrightarrow>
   foldl (\<lambda>f j. f[j := g j]) xs js ! k = (if k \<in> set js then g k else xs ! k)"
  by (induction js arbitrary: xs) (auto simp add: nth_list_update)

lemma centerHz_new:
  "melToHz (hzToMel 0 + (real i + 1)
       * (hzToMel (AdvancedAudioAnalyzer.sampleRate new_analyzer / 2) - hzToMel 0)
       / (real (13::nat) + 1))
   = 700 * ((65 / 2) powr ((real i + 1) / 14) - 1)"
proof -
  have "(real i + 1) * (2595 * L) / 14 / 2595 = L * ((real i + 1) / 14)" for L :: real
    by simp
  then have "10 powr ((real i + 1) * (2595 * log 10 (65 / 2)) / 14 / 2595)
      = 10 powr (log 10 (65 / 2) * ((real i + 1) / 14))"
    by (simp only:)
  also have "\<dots> = (10 powr log 10 (65 / 2)) powr ((real i + 1) / 14)"
    by (simp only: powr_powr)
  also have "\<dots> = (65 / 2) powr ((real i + 1) / 14)"
    by simp
  finally show ?thesis
    by (simp add: melToHz_def hzToMel_def)
qed

lemma powr_low: "1 \<le> (65 / 2 :: real) powr (1 / 14)" "(65 / 2 :: real) powr (1 / 14) \<le> 2"
proof -
  show "1 \<le> (65 / 2 :: real) powr (1 / 14)"
    by (rule ge_one_powr_ge_zero) simp_all
  have "(65 / 2 :: real) powr (1 / 14) \<le> (2 ^ 14) powr (1 / 14)"
    by (rule powr_mono2) simp_all
  also have "(2 ^ 14 :: real) powr (1 / 14) = (2 powr 14) powr (1 / 14)"
    by simp
  also have "\<dots> = 2"
    by (simp only: powr_powr) simp
  finally show "(65 / 2 :: real) powr (1 / 14) \<le> 2" .
qed

lemma powr_high: "5 \<le> (65 / 2 :: real) powr (13 / 14)"
proof -
  have "(5::real) \<le> sqrt (65 / 2)"
    by (rule real_le_rsqrt) simp
  also have "\<dots> = (65 / 2) powr (1 / 2)"
    by (simp add: powr_half_sqrt)
  also have "\<dots> \<le> (65 / 2) powr (13 / 14)"
    by (rule powr_mono) simp_all
  finally show ?thesis .
qed


lemma melFilter_new:
  "melFilter new_analyzer 16 13 i =
     foldl (\<lambda>filter j. filter[j := 1 - \<bar>real_of_int
                 (int j - \<lfloor>700 * ((65 / 2) powr ((real i + 1) / 14) - 1) * 32 / 44100\<rfloor>)\<bar>])
       (replicate 16 0)
       [nat (max 0 (\<lfloor>700 * ((65 / 2) powr ((real i + 1) / 14) - 1) * 32 / 44100\<rfloor> - 1)) ..<
        nat (min 16 (\<lfloor>700 * ((65 / 2) powr ((real i + 1) / 14) - 1) * 32 / 44100\<rfloor> + 1))]"
proof -
  have w: "\<lfloor>real 16 / real 13\<rfloor> = 1"
    by (simp add: floor_eq_iff)
  show ?thesis
    unfolding melFilter_def Let_def centerHz_new w
    by simp
qed

lemma centerBin_low: "\<lfloor>700 * ((65 / 2 :: real) powr ((real 0 + 1) / 14) - 1) * 32 / 44100\<rfloor> = 0"
proof -
  have "0 \<le> 700 * ((65 / 2 :: real) powr (1 / 14) - 1) * 32 / 44100"
    using powr_low(1) by simp
  moreover have "700 * ((65 / 2 :: real) powr (1 / 14) - 1) * 32 / 44100 < 1"
    using powr_low(2) by simp
  ultimately show ?thesis
    by (simp add: floor_eq_iff)
qed

lemma centerBin_high:
  "2 \<le> \<lfloor>700 * ((65 / 2 :: real) powr ((real 12 + 1) / 14) - 1) * 32 / 44100\<rfloor>"
proof -
  have "2 \<le> 700 * ((65 / 2 :: real) powr (13 / 14) - 1) * 32 / 44100"
    using powr_high by simp
  then show ?thesis
    by (simp add: le_floor_iff)
qed

lemma melFilter_low: "melFilter new_analyzer 16 13 0 ! 0 = 1"
  unfolding melFilter_new centerBin_low
  by (simp add: foldl_update_nth)

lemma melFilter_high: "melFilter new_analyzer 16 13 12 ! 0 = 0"
proof -
  define cb where "cb = \<lfloor>700 * ((65 / 2 :: real) powr ((real 12 + 1) / 14) - 1) * 32 / 44100\<rfloor>"
  have cb: "2 \<le> cb" unfolding cb_def by (rule centerBin_high)
  then have "0 \<notin> set [nat (max 0 (cb - 1)) ..< nat (min 16 (cb + 1))]"
    by simp
  then show ?thesis
    unfolding melFilter_new cb_def [symmetric]
    using cb by (simp add: foldl_update_nth)
qed


lemma low_bins:
  "magnitudeAt low16 0 = 1" "0 < i \<Longrightarrow> i < 16 \<Longrightarrow> magnitudeAt low16 i = 0"
  by (simp_all add: magnitudeAt_def low16_def byte_def nth_Cons')

lemma length_low16: "length low16 = 16"
  by (simp add: low16_def)

lemma coefficient_low:
  "foldl (\<lambda>c j. c + magnitudeAt low16 j * (fs ! i ! j)) 0 [0 ..< 16] = fs ! i ! 0"
  by (simp add: upt16 low_bins)

lemma mfcc_low:
  "calculateMFCC new_analyzer low16
     = ln (1 + 1 / 10 ^ 10)
       # map (\<lambda>i. ln (melFilter new_analyzer 16 13 i ! 0 + 1 / 10 ^ 10)) [1 ..< 12]
       @ [ln (1 / 10 ^ 10)]"
proof -
  have u: "[0 ..< 13] = 0 # [1 ..< 12] @ [12]"
    by (simp add: upt_rec)
  have n: "createMelFilterBank new_analyzer 16 13 ! i = melFilter new_analyzer 16 13 i"
    if "i < 13" for i
    using that by (simp add: createMelFilterBank_def)
  have "calculateMFCC new_analyzer low16
      = map (\<lambda>i. ln (createMelFilterBank new_analyzer 16 13 ! i ! 0 + 1 / 10 ^ 10)) [0 ..< 13]"
    by (simp add: calculateMFCC_def Let_def coefficient_low length_low16)
  also have "\<dots> = map (\<lambda>i. ln (melFilter new_analyzer 16 13 i ! 0 + 1 / 10 ^ 10)) [0 ..< 13]"
    by (rule map_cong) (simp_all add: n)
  finally show ?thesis
    unfolding u by (simp add: melFilter_low melFilter_high)
qed

lemma spread_variance:
  assumes "0 \<le> x" "z \<le> - 20" "length ys = 11"
  shows "3 \<le> calculateVariance (x # ys @ [z])"
proof -
  define mean where "mean = reduce_sum (x # ys @ [z]) / real (length (x # ys @ [z]))"
  have "2 * ((x - mean) ^ 2 + (z - mean) ^ 2) = (x - z) ^ 2 + (x + z - 2 * mean) ^ 2"
    by (simp add: power2_eq_square algebra_simps)
  moreover have "0 \<le> (x + z - 2 * mean) ^ 2"
    by (rule zero_le_power2)
  moreover have "400 \<le> (x - z) ^ 2"
  proof -
    have "(20::real) ^ 2 \<le> (x - z) ^ 2"
      by (rule power_mono) (use assms in simp_all)
    then show ?thesis by simp
  qed
  ultimately have "200 \<le> (x - mean) ^ 2 + (z - mean) ^ 2"
    by argo
  moreover have "0 \<le> sum_list (map (\<lambda>val. (val - mean) ^ 2) ys)"
    by (rule sum_list_nonneg) auto
  ultimately have "200 \<le> sum_list (map (\<lambda>val. (val - mean) ^ 2) (x # ys @ [z]))"
    by simp
  then have "3 ^ 2 \<le> foldl (\<lambda>sum val. sum + (val - mean) ^ 2) 0 (x # ys @ [z])
      / real (length (x # ys @ [z]))"
    using assms(3) by (simp only: foldl_add_sum) simp
  then have "3 \<le> sqrt (foldl (\<lambda>sum val. sum + (val - mean) ^ 2) 0 (x # ys @ [z])
      / real (length (x # ys @ [z])))"
    by (rule real_le_rsqrt)
  then show ?thesis
    unfolding calculateVariance_def Let_def mean_def .
qed

lemma zcr_nonneg: "0 \<le> calculateZeroCrossingRate td"
  by (simp add: calculateZeroCrossingRate_def Let_def)

lemma instrumentalness_low:
  "instrumentalness (snd (fst (animate (new_detector 44100 1024, new_analyzer) lowData 0))) < 0"
proof -
  define out where "out = fst (analyzeFrame (new_detector 44100 1024) lowData 0)"
  define f where "f = fst (analyzeAdvancedFeatures new_analyzer lowData out
      (timeData lowData) (frequencyData lowData))"
  have m: "mfcc f = calculateMFCC new_analyzer low16"
    and z: "zeroCrossingRate f = calculateZeroCrossingRate (replicate 16 128)"
    by (simp_all add: f_def analyzeAdvancedFeatures_def Let_def lowData_def)
  have "3 \<le> calculateVariance (mfcc f)"
    unfolding m mfcc_low
    by (rule spread_variance) (use ln_tiny in simp_all)
  moreover have "0 \<le> zeroCrossingRate f"
    unfolding z by (rule zcr_nonneg)
  ultimately have "(1 - zeroCrossingRate f) * (6 / 10)
      + (1 - calculateVariance (mfcc f)) * (4 / 10) < 0"
    by argo
  then have "calculateInstrumentalness f < 0"
    unfolding calculateInstrumentalness_def Let_def by (simp only: min_less_iff_disj) simp
  then show ?thesis
    by (simp add: animate_def case_prod_unfold Let_def generateMusicCharacteristics_def
        out_def f_def)
qed

section \<open>Claims about the beat detector\<close>



text \<open>
  Claim C2. In every sequence of \<^verbatim>\<open>analyze\<close> calls on one detector, the clock readings of
  two distinct accepted beats differ by at least 300 ms. The theorem needs no assumption
  on the clock.
\<close>

theorem timing_gate:
  "i < j \<Longrightarrow> j < length ticks \<Longrightarrow> isBeat (fst (feed s ticks) ! i) \<Longrightarrow>
   isBeat (fst (feed s ticks) ! j) \<Longrightarrow> 300 \<le> snd (ticks ! j) - snd (ticks ! i)"
proof (induction ticks arbitrary: s i j)
  case Nil
  then show ?case by simp
next
  case (Cons tick ticks)
  let ?r = "analyzeFrame s (fst tick) (snd tick)"
  obtain k where j: "j = Suc k" using Cons.prems(1) by (cases j) simp_all
  then have k: "k < length ticks" and bk: "isBeat (fst (feed (snd ?r) ticks) ! k)"
    using Cons.prems by (simp_all add: feed_Cons_fst)
  show ?case
  proof (cases i)
    case 0
    then have "isBeat (fst ?r)" using Cons.prems by (simp add: feed_Cons_fst)
    then have "lastBeatTime (snd ?r) = snd tick"
      unfolding analyzeFrame_def by (simp add: analyze_lastBeatTime)
    then show ?thesis using feed_beats_later [OF k bk] 0 j by simp
  next
    case (Suc l)
    then have "l < k" "isBeat (fst (feed (snd ?r) ticks) ! l)"
      using Cons.prems j by (simp_all add: feed_Cons_fst)
    then show ?thesis using Cons.IH [OF _ k _ bk] Suc j by simp
  qed
qed

text \<open>In the recorded session the tenth and the eleventh tick are beats, 450 ms apart.\<close>

theorem timing_gate_witness:
  "(9::nat) < 10 \<and> 10 < length session
   \<and> isBeat (fst (feed (new_detector 44100 1024) session) ! 9)
   \<and> isBeat (fst (feed (new_detector 44100 1024) session) ! 10)
   \<and> 300 \<le> snd (session ! 10) - snd (session ! 9)"
proof -
  have a: "(9::nat) < 10" "10 < length session"
    "isBeat (fst (feed (new_detector 44100 1024) session) ! 9)"
    "isBeat (fst (feed (new_detector 44100 1024) session) ! 10)"
    by (simp_all add: feed_session beatOut_def) (simp add: session_def quiet9_def beats3_def)
  show ?thesis
    using timing_gate [OF a] a by simp
qed




text \<open>
  Claim C4. On a detector fed from its construction by a clock that never runs backwards,
  every \<^verbatim>\<open>analyze\<close> call returns a confidence between 0 and 1, a beat phase of at least 0
  and below 1, and a tempo between 60 and 200.
\<close>

theorem range_invariants:
  assumes "sorted (map snd ticks)" "k < length ticks"
  shows "0 \<le> BeatData.confidence (fst (feed (new_detector sr bs) ticks) ! k)
     \<and> BeatData.confidence (fst (feed (new_detector sr bs) ticks) ! k) \<le> 1
     \<and> 0 \<le> BeatData.beatPhase (fst (feed (new_detector sr bs) ticks) ! k)
     \<and> BeatData.beatPhase (fst (feed (new_detector sr bs) ticks) ! k) < 1
     \<and> 60 \<le> BeatData.tempo (fst (feed (new_detector sr bs) ticks) ! k)
     \<and> BeatData.tempo (fst (feed (new_detector sr bs) ticks) ! k) \<le> 200"
proof -
  obtain tick rest where t: "ticks = tick # rest"
    using assms(2) by (cases ticks) simp_all
  have srt: "sorted (snd tick # map snd ticks)"
    using assms(1) t by simp
  have init: "tempo_ok (tempoHistory (new_detector sr bs))"
    "clock_ok (new_detector sr bs) (snd tick)"
    by (simp_all add: new_detector_def tempo_ok_def clock_ok_def)
  have "in_range (fst (feed (new_detector sr bs) ticks) ! k)"
    using init srt assms(2) by (rule feed_range)
  then show ?thesis
    by (simp add: in_range_def)
qed

text \<open>The last tick of the recorded session, a beat with confidence 1, phase 0 and tempo
  132.\<close>

theorem range_invariants_witness:
  "sorted (map snd session) \<and> 11 < length session
   \<and> BeatData.confidence (fst (feed (new_detector 44100 1024) session) ! 11) = 1
   \<and> BeatData.beatPhase (fst (feed (new_detector 44100 1024) session) ! 11) = 0
   \<and> BeatData.tempo (fst (feed (new_detector 44100 1024) session) ! 11) = 132
   \<and> 60 \<le> BeatData.tempo (fst (feed (new_detector 44100 1024) session) ! 11)"
proof -
  have a: "sorted (map snd session)" "11 < length session"
    by (simp_all add: session_def quiet9_def beats3_def)
  show ?thesis
    using range_invariants [OF a, of 44100 1024] a
    by (simp add: feed_session beatOut_def)
qed

text \<open>
  Claim C9. Resetting twice leaves the detector as resetting once does. After any
  sequence of frames fed to a constructed detector, a reset gives back the detector as it
  was constructed, and the next frame then returns the cold-start output: no beat,
  confidence 0, tempo 120, time signature 4 and phase 0.
\<close>

theorem reset_idempotence:
  "reset (reset s) = reset s
   \<and> reset (snd (feed (new_detector sr bs) ticks)) = new_detector sr bs
   \<and> fst (analyze (reset (snd (feed (new_detector sr bs) ticks))) fd td b m t now) =
       \<lparr> isBeat = False, BeatData.confidence = 0, tempo = 120, timeSignature = 4,
         BeatData.beatPhase = 0, intensity = calculateIntensity b m t (calculateEnergy fd) \<rparr>"
proof -
  have "reset (reset s) = reset s"
    by (simp add: reset_def)
  moreover have new: "reset (snd (feed (new_detector sr bs) ticks)) = new_detector sr bs"
    using feed_params [of "new_detector sr bs" ticks]
    by (intro reset_is_new) (simp_all add: new_detector_def)
  ultimately show ?thesis
    by (simp add: cold_start)
qed

text \<open>After the recorded session, whose last tick was a beat at tempo 132, a reset and one
  more loud frame give the cold-start output again.\<close>

theorem reset_idempotence_witness:
  "reset (reset (snd (feed (new_detector 44100 1024) session)))
     = reset (snd (feed (new_detector 44100 1024) session))
   \<and> tempoHistory (snd (feed (new_detector 44100 1024) session)) = [133, 132]
   \<and> reset (snd (feed (new_detector 44100 1024) session)) = new_detector 44100 1024
   \<and> fst (analyze (reset (snd (feed (new_detector 44100 1024) session)))
            [255, 255, 255, 255] [128, 128, 128, 128] 1 1 1 2500) =
       \<lparr> isBeat = False, BeatData.confidence = 0, tempo = 120, timeSignature = 4,
         BeatData.beatPhase = 0, intensity = 1 \<rparr>"
proof -
  have s: "snd (feed (new_detector 44100 1024) session)
      = det E12 [1000, 1450, 1950] [133, 132] 1950 E12 P12"
    by (simp add: feed_session)
  show ?thesis
    using reset_idempotence [of "snd (feed (new_detector 44100 1024) session)" 44100 1024
        session "[255, 255, 255, 255]" "[128, 128, 128, 128]" 1 1 1 2500]
    unfolding s by (auto simp add: calculateIntensity_def energy_loud)
qed

text \<open>
  Claim C10. Whenever \<^verbatim>\<open>analyze\<close> returns a beat, the confidence it returns is above 0.15
  and at most 1.
\<close>

theorem accepted_confidence:
  assumes "isBeat (fst (analyze s fd td b m t now))"
  shows "15 / 100 < BeatData.confidence (fst (analyze s fd td b m t now))
   \<and> BeatData.confidence (fst (analyze s fd td b m t now)) \<le> 1"
proof -
  define e where "e = calculateEnergy fd"
  define s1 where "s1 = entered s e b m t"
  define r where "r = spec_energyRatio (energyHistory s1) e"
  have beat: "fst (fst (detectBeat s1 e now))"
    using assms by (simp add: analyze_unfold Let_def e_def s1_def)
  then have acc: "spec_accept (energyHistory s1) (bassHistory s1) e (now - lastBeatTime s1)"
    and c: "snd (fst (detectBeat s1 e now)) = min 1 ((r - 1) * (1 / 2))"
    by (simp_all add: detectBeat_result r_def split: if_splits)
  have "13 / 10 + sqrt (spec_variance (slice_last 10 (energyHistory s1))) < r"
    using acc by (simp add: spec_accept_def r_def)
  moreover have "0 \<le> sqrt (spec_variance (slice_last 10 (energyHistory s1)))"
    by (simp add: spec_variance_nonneg)
  ultimately have "13 / 10 < r" by linarith
  then have "15 / 100 < min 1 ((r - 1) * (1 / 2)) \<and> min 1 ((r - 1) * (1 / 2)) \<le> 1"
    by (simp add: min_def)
  then show ?thesis
    using c by (simp add: analyze_unfold Let_def e_def s1_def)
qed

text \<open>The first beat of the recorded session has confidence 1.\<close>

theorem accepted_confidence_witness:
  "isBeat (fst (analyze (snd (feed (new_detector 44100 1024) quiet9))
       [255, 255, 255, 255] [128, 128, 128, 128] 1 1 1 1000))
   \<and> 15 / 100 < BeatData.confidence (fst (analyze (snd (feed (new_detector 44100 1024) quiet9))
       [255, 255, 255, 255] [128, 128, 128, 128] 1 1 1 1000))
   \<and> BeatData.confidence (fst (analyze (snd (feed (new_detector 44100 1024) quiet9))
       [255, 255, 255, 255] [128, 128, 128, 128] 1 1 1 1000)) = 1"
proof -
  have r: "analyze (det Z9 [] [] 0 Z9 F9) [255, 255, 255, 255] [128, 128, 128, 128] 1 1 1 1000
     = (beatOut 120, det E10 [1000] [] 1000 E10 P10)"
    using loud_step1 by (simp add: analyzeFrame_def loudData_def)
  then have b: "isBeat (fst (analyze (det Z9 [] [] 0 Z9 F9)
       [255, 255, 255, 255] [128, 128, 128, 128] 1 1 1 1000))"
    by (simp add: beatOut_def)
  show ?thesis
    using accepted_confidence [OF b] b by (simp add: warmup) (simp add: r beatOut_def)
qed

section \<open>Claims about the characteristics\<close>

text \<open>
  Claim C5, as amended. For every frame with a non-empty frequency array and a non-empty
  time array whose three band levels lie between 0 and 1, the characteristics generated
  from the features of that frame have an energy and a valence between 0 and 1, and a
  danceability, an acousticness and an instrumentalness of at most 1. The source clamps
  these fields from above only; the energy is the plain mean of the band levels. On an
  empty array the source divides 0 by 0 and the three clamped fields are \<^verbatim>\<open>NaN\<close>, so
  nothing is stated there.
\<close>

theorem characteristics_bounds:
  assumes "0 \<le> AdvancedAudioAnalyzer.sampleRate a"
    and "0 \<le> bass d \<and> bass d \<le> 1" "0 \<le> mid d \<and> mid d \<le> 1"
    and "0 \<le> treble d \<and> treble d \<le> 1"
    and "frequencyData d \<noteq> []" "timeData d \<noteq> []"
  shows
  "let (f, a') = analyzeAdvancedFeatures a d b (timeData d) (frequencyData d);
       c = generateMusicCharacteristics a' d b f
   in 0 \<le> energy c \<and> energy c \<le> 1 \<and> 0 \<le> valence c \<and> valence c \<le> 1
      \<and> danceability c \<le> 1 \<and> acousticness c \<le> 1 \<and> instrumentalness c \<le> 1"
proof -
  define f where "f = fst (analyzeAdvancedFeatures a d b (timeData d) (frequencyData d))"
  have f: "spectralCentroid f = calculateSpectralCentroid a (frequencyData d)"
    "harmonicRatio f = calculateHarmonicRatio a (frequencyData d)"
    "chroma f = calculateChroma a (frequencyData d)"
    by (simp_all add: f_def analyzeAdvancedFeatures_def Let_def)
  have "0 \<le> getMajorKeyStrength (chroma f)"
    unfolding f using chroma_shape [of a "frequencyData d"]
    by (intro majorKeyStrength_nonneg) simp_all
  moreover have "0 \<le> spectralCentroid f" "0 \<le> harmonicRatio f"
    unfolding f by (simp_all add: centroid_nonneg [OF assms(1)] harmonicRatio_nonneg)
  ultimately have v: "0 \<le> calculateValence f d"
    by (simp add: calculateValence_def Let_def)
  have v1: "calculateValence f d \<le> 1" "calculateDanceability b f \<le> 1"
    "calculateAcousticness f \<le> 1" "calculateInstrumentalness f \<le> 1"
    by (simp_all add: calculateValence_def calculateDanceability_def calculateAcousticness_def
        calculateInstrumentalness_def Let_def)
  show ?thesis
    using assms(2-4) v v1
    by (simp add: case_prod_unfold Let_def generateMusicCharacteristics_def f_def [symmetric])
qed

text \<open>The bounds on the bright sixteen-bin frame, fed to a new analyzer.\<close>

theorem characteristics_bounds_witness:
  "0 \<le> AdvancedAudioAnalyzer.sampleRate new_analyzer
   \<and> 0 \<le> bass brightData \<and> bass brightData \<le> 1
   \<and> 0 \<le> mid brightData \<and> mid brightData \<le> 1
   \<and> 0 \<le> treble brightData \<and> treble brightData \<le> 1
   \<and> frequencyData brightData \<noteq> [] \<and> timeData brightData \<noteq> []
   \<and> 0 \<le> valence (generateMusicCharacteristics
         (snd (analyzeAdvancedFeatures new_analyzer brightData coldOut
                 (timeData brightData) (frequencyData brightData)))
         brightData coldOut
         (fst (analyzeAdvancedFeatures new_analyzer brightData coldOut
                 (timeData brightData) (frequencyData brightData))))
   \<and> acousticness (generateMusicCharacteristics
         (snd (analyzeAdvancedFeatures new_analyzer brightData coldOut
                 (timeData brightData) (frequencyData brightData)))
         brightData coldOut
         (fst (analyzeAdvancedFeatures new_analyzer brightData coldOut
                 (timeData brightData) (frequencyData brightData)))) \<le> 1"
proof -
  have h: "0 \<le> AdvancedAudioAnalyzer.sampleRate new_analyzer"
    "0 \<le> bass brightData \<and> bass brightData \<le> 1"
    "0 \<le> mid brightData \<and> mid brightData \<le> 1"
    "0 \<le> treble brightData \<and> treble brightData \<le> 1"
    "frequencyData brightData \<noteq> []" "timeData brightData \<noteq> []"
    by (simp_all add: brightData_def bright16_def)
  show ?thesis
    using characteristics_bounds [OF h, of coldOut] h
    by (simp add: case_prod_unfold Let_def)
qed

text \<open>
  Claim C5 as the specification states it fails: nothing clamps the acousticness, the
  danceability or the instrumentalness from below. On the first tick of a new detector
  and a new analyzer, the bright sixteen-bin frame has its spectral centroid at
  19293.75 Hz, a harmonic ratio of 0 and a flux of 0, and the acousticness generated is
  -0.9435. On the second of two silent ticks the flux is measured against the thirteen
  \<^verbatim>\<open>mfcc\<close> entries of the first, each the logarithm of \<open>1e-10\<close>, and the
  danceability is negative. On the first tick of the frame with energy in its lowest bin
  only, the \<^verbatim>\<open>mfcc\<close> entries are spread between the logarithm of \<open>1e-10\<close> and 0, and
  the instrumentalness is negative.
\<close>

theorem characteristics_counterexample:
  "acousticness (snd (fst (animate (new_detector 44100 1024, new_analyzer) brightData 100))) < 0
   \<and> danceability (snd (fst (animate
         (snd (animate (new_detector 44100 1024, new_analyzer) silentData 0)) silentData 16)))
       < 0
   \<and> instrumentalness (snd (fst (animate (new_detector 44100 1024, new_analyzer) lowData 0)))
       < 0"
  by (simp add: acousticness_bright danceability_silent instrumentalness_low)

text \<open>
  Claim C6, as amended. Fed any number of silent frames in a row, from any state of the
  detector and of the analyzer, every tick returns no beat, the tempo that was held
  before the first of them (120 if there was none), an energy of 0, and the mood
  \<^verbatim>\<open>dark\<close>: the third branch of the cascade, which a valence below 0.3 or a spectral
  centroid below 1000 takes, not its final default.
\<close>

theorem silent_input:
  assumes "list_all (\<lambda>tick. silentFrame rate (fst tick)) ticks"
  shows "list_all
     (\<lambda>out. isBeat (fst out) = False
            \<and> BeatData.tempo (fst out) = held_tempo (tempoHistory s)
            \<and> energy (snd out) = 0 \<and> mood (snd out) = Dark)
     (playback (s, a) ticks)"
  using playback_silent [OF assms, of "(s, a)"]
  by (simp add: quietly_def [abs_def])

text \<open>A hundred silent ticks on a new detector and a new analyzer.\<close>

theorem silent_input_witness:
  "list_all (\<lambda>tick. silentFrame 44100 (fst tick)) silence100
   \<and> length (playback (new_detector 44100 1024, new_analyzer) silence100) = 100
   \<and> list_all
        (\<lambda>out. isBeat (fst out) = False \<and> BeatData.tempo (fst out) = 120
               \<and> energy (snd out) = 0 \<and> mood (snd out) = Dark)
        (playback (new_detector 44100 1024, new_analyzer) silence100)"
  using silent_input [OF silence100_silent, of "new_detector 44100 1024" new_analyzer]
    silence100_silent
  by (simp add: held_tempo_def new_detector_def)

text \<open>
  Claim C6 as the specification states it fails in its last part: on the first and on
  the hundredth of a hundred silent ticks the mood is \<^verbatim>\<open>dark\<close>, not \<^verbatim>\<open>calm\<close>.
\<close>

theorem silent_mood_counterexample:
  "mood (snd (playback (new_detector 44100 1024, new_analyzer) silence100 ! 0)) \<noteq> Calm
   \<and> mood (snd (playback (new_detector 44100 1024, new_analyzer) silence100 ! 99)) \<noteq> Calm
   \<and> mood (snd (playback (new_detector 44100 1024, new_analyzer) silence100 ! 0)) = Dark"
proof -
  have "list_all (quietly (held_tempo (tempoHistory (new_detector 44100 1024))))
      (playback (new_detector 44100 1024, new_analyzer) silence100)"
    using playback_silent [OF silence100_silent, of "(new_detector 44100 1024, new_analyzer)"]
    by simp
  then have "mood (snd (playback (new_detector 44100 1024, new_analyzer) silence100 ! i)) = Dark"
    if "i < 100" for i
    using that by (simp add: list_all_length quietly_def)
  from this [of 0] this [of 99] show ?thesis by simp
qed

text \<open>
  Claim C7. A spectrum with energy only at harmonics of 440 Hz and at the other degrees
  of the scale of A major should be given the key A. The source does not do so. On the
  synthetic spectrum with full magnitude at 440, 880 and 1320 Hz and at the bins nearest
  to B4, C#5, D5, E5, F#5 and G#5, the chroma vector is the major-scale template itself,
  weighted, starting in bin 0, because \<^verbatim>\<open>calculateChroma\<close> counts the pitch classes from
  A4; \<^verbatim>\<open>detectKey\<close> counts the key names from C, so the unrotated template wins and the
  key detected is C.
\<close>

theorem a_major_spectrum_key:
  "map (binFrequency new_analyzer a_major_frame) [44, 49, 55, 59, 66, 74, 83, 88, 132]
     = [440, 490, 550, 590, 660, 740, 830, 880, 1320]
   \<and> calculateChroma new_analyzer a_major_frame
     = [2 / 9, 0, 1 / 9, 0, 1 / 9, 1 / 9, 0, 2 / 9, 0, 1 / 9, 0, 1 / 9]
   \<and> detectKey (calculateChroma new_analyzer a_major_frame) = ''C''"
  by (simp add: a_major_frequency chroma_a_major detectKey_a_major)

text \<open>
  Claim C8, as amended. On a new analyzer the spectral flux is 0. On every later tick
  with a non-empty frame it is the sum over the first bins, at most 128, of the positive
  part of the current magnitude minus the previous tick's \<^verbatim>\<open>mfcc\<close> entry (0 beyond the
  length of that vector), divided by the number of bins summed.
\<close>

theorem spectral_flux_mean:
  assumes "fd2 \<noteq> []"
  shows "spectralFlux (fst (analyzeAdvancedFeatures new_analyzer d b td fd)) = 0
   \<and> (let (f1, a1) = analyzeAdvancedFeatures a d1 b1 td1 fd1;
           (f2, a2) = analyzeAdvancedFeatures a1 d2 b2 td2 fd2
       in spectralFlux f2 = claimed_flux (mfcc f1) fd2 / real (min (length fd2) 128))"
  using history_after [of a d1 b1 td1 fd1]
  by (simp add: case_prod_unfold features_flux(1) flux_first flux_later)

text \<open>The bright frame after the quiet one: the flux is a sixteenth of the sum.\<close>

theorem spectral_flux_mean_witness:
  "bright16 \<noteq> []
   \<and> spectralFlux (fst (analyzeAdvancedFeatures new_analyzer quiet16Data coldOut
                          (replicate 16 128) quiet16)) = 0
   \<and> spectralFlux (fst (analyzeAdvancedFeatures
         (snd (analyzeAdvancedFeatures new_analyzer quiet16Data coldOut (replicate 16 128) quiet16))
         brightData coldOut (replicate 16 128) bright16))
     = claimed_flux
         (mfcc (fst (analyzeAdvancedFeatures new_analyzer quiet16Data coldOut
                       (replicate 16 128) quiet16)))
         bright16 / 16"
proof -
  have ne: "bright16 \<noteq> []" by (simp add: bright16_def)
  show ?thesis
    using spectral_flux_mean [OF ne, of quiet16Data coldOut "replicate 16 128" quiet16
        new_analyzer quiet16Data coldOut "replicate 16 128" quiet16
        brightData coldOut "replicate 16 128"] ne
    by (simp add: case_prod_unfold Let_def length_bright16)
qed

text \<open>
  Claim C8 as the specification states it fails: the flux is not the sum. For the
  bright frame after the quiet one the sum is at least 3, since the three highest bins
  lie beyond the thirteen \<^verbatim>\<open>mfcc\<close> entries, and the flux is a sixteenth of it.
\<close>

theorem spectral_flux_counterexample:
  "spectralFlux (fst (analyzeAdvancedFeatures
       (snd (analyzeAdvancedFeatures new_analyzer quiet16Data coldOut (replicate 16 128) quiet16))
       brightData coldOut (replicate 16 128) bright16))
   \<noteq> claimed_flux
       (mfcc (fst (analyzeAdvancedFeatures new_analyzer quiet16Data coldOut
                     (replicate 16 128) quiet16)))
       bright16"
proof -
  define f1 where
    "f1 = fst (analyzeAdvancedFeatures new_analyzer quiet16Data coldOut (replicate 16 128) quiet16)"
  define a1 where
    "a1 = snd (analyzeAdvancedFeatures new_analyzer quiet16Data coldOut (replicate 16 128) quiet16)"
  have "length (mfcc f1) = 13"
    by (simp add: f1_def features_flux length_mfcc)
  then have s: "3 \<le> claimed_flux (mfcc f1) bright16"
    by (rule claimed_flux_bright)
  have "spectralFlux (fst (analyzeAdvancedFeatures a1 brightData coldOut (replicate 16 128) bright16))
      = claimed_flux (mfcc f1) bright16 / 16"
    using history_after [of new_analyzer quiet16Data coldOut "replicate 16 128" quiet16]
    by (simp add: features_flux(1) flux_later a1_def [symmetric] f1_def [symmetric]
        length_bright16)
  then show ?thesis
    using s unfolding f1_def [symmetric] a1_def [symmetric] by simp
qed

end
